theory Spec2Isabelle
  imports Complex_Main
begin

section \<open>Python values used by the gateway\<close>

text \<open>
  A Python \<open>str\<close> is a sequence of Unicode code points; it is modelled as a list of
  natural numbers. Source literals are ASCII and are written through \<open>ascii\<close>.
\<close>

type_synonym str = "nat list"

definition ascii :: "string \<Rightarrow> str" where
  "ascii = map of_char"

text \<open>
  A Python \<open>float\<close>: a finite one (given by the decimal that Python prints for it),
  an infinity (with its sign) or not-a-number. \<open>json.loads\<close> produces all three.
\<close>

datatype pyfloat = Finite rat | Infinite bool | NaN

text \<open>
  What \<open>json.loads\<close> returns, and what the gateway serialises with \<open>json=payload\<close>:
  \<open>None\<close>, \<open>bool\<close>, \<open>int\<close>, \<open>float\<close>, \<open>str\<close>, \<open>list\<close> and \<open>dict\<close> (an
  association list, looked up by key).
\<close>

datatype json =
    JNull
  | JBool bool
  | JInt int
  | JFloat pyfloat
  | JStr str
  | JArr "json list"
  | JObj "(str \<times> json) list"

text \<open>
  The exceptions that occur. The three \<open>httpx\<close> classes follow the library's hierarchy:
  \<open>HTTPError\<close> has the subclasses \<open>RequestError\<close> and \<open>HTTPStatusError\<close>, and
  \<open>TimeoutException\<close> is a subclass of \<open>RequestError\<close>. \<open>RequestError\<close> below stands for
  the request errors that are not timeouts. A FastAPI \<open>HTTPException\<close> carries its status
  code and detail; the detail \<open>Unexpected e\<close> stands for the formatted string
  \<^verbatim>\<open>f"An unexpected error occurred: {str(e)}"\<close>.
\<close>

datatype exn =
    HTTPException nat detail
  | RequestError
  | TimeoutException
  | HTTPStatusError
  | JSONDecodeError
  | RecursionError
  | ValueError
  | KeyError
  | TypeError
  | AttributeError
  | UnicodeDecodeError
  | OtherException string
and detail =
    Msg string
  | Unexpected exn

fun is_RequestError :: "exn \<Rightarrow> bool" where
  "is_RequestError RequestError = True"
| "is_RequestError TimeoutException = True"
| "is_RequestError _ = False"

fun is_TimeoutException :: "exn \<Rightarrow> bool" where
  "is_TimeoutException TimeoutException = True"
| "is_TimeoutException _ = False"

fun is_HTTPError :: "exn \<Rightarrow> bool" where
  "is_HTTPError RequestError = True"
| "is_HTTPError TimeoutException = True"
| "is_HTTPError HTTPStatusError = True"
| "is_HTTPError _ = False"

text \<open>Sequencing of a computation that may raise.\<close>

definition bindE :: "exn + 'a \<Rightarrow> ('a \<Rightarrow> exn + 'b) \<Rightarrow> exn + 'b" where
  "bindE m f = (case m of Inl e \<Rightarrow> Inl e | Inr v \<Rightarrow> f v)"

subsection \<open>String methods\<close>

text \<open>
  \<open>str.isspace\<close> for one code point: the whitespace set of CPython
  (\<open>_PyUnicode_IsWhitespace\<close>).
\<close>

definition isspace :: "nat \<Rightarrow> bool" where
  "isspace c \<longleftrightarrow>
     (0x09 \<le> c \<and> c \<le> 0x0D) \<or> (0x1C \<le> c \<and> c \<le> 0x1F) \<or> c = 0x20 \<or> c = 0x85 \<or>
     c = 0xA0 \<or> c = 0x1680 \<or> (0x2000 \<le> c \<and> c \<le> 0x200A) \<or> c = 0x2028 \<or>
     c = 0x2029 \<or> c = 0x202F \<or> c = 0x205F \<or> c = 0x3000"

definition lstrip :: "str \<Rightarrow> str" where
  "lstrip s = dropWhile isspace s"

definition rstrip :: "str \<Rightarrow> str" where
  "rstrip s = rev (dropWhile isspace (rev s))"

text \<open>\<open>s.strip()\<close>\<close>

definition strip :: "str \<Rightarrow> str" where
  "strip s = lstrip (rstrip s)"

text \<open>\<open>s.rstrip(chars)\<close>\<close>

definition rstrip_chars :: "str \<Rightarrow> str \<Rightarrow> str" where
  "rstrip_chars s chars = rev (dropWhile (\<lambda>c. c \<in> set chars) (rev s))"

definition startswith :: "str \<Rightarrow> str \<Rightarrow> bool" where
  "startswith s p \<longleftrightarrow> take (length p) s = p"

definition endswith :: "str \<Rightarrow> str \<Rightarrow> bool" where
  "endswith s x \<longleftrightarrow> length x \<le> length s \<and> drop (length s - length x) s = x"

text \<open>
  \<open>s.rfind(sub)\<close>: the highest index at which \<open>sub\<close> occurs in \<open>s\<close>, or \<open>-1\<close>. The
  search runs from the last possible start index down to \<open>0\<close>.
\<close>

fun rfind_from :: "str \<Rightarrow> str \<Rightarrow> nat \<Rightarrow> int" where
  "rfind_from s sub 0 = (if startswith s sub then 0 else - 1)"
| "rfind_from s sub (Suc i) =
     (if startswith (drop (Suc i) s) sub then int (Suc i) else rfind_from s sub i)"

definition rfind :: "str \<Rightarrow> str \<Rightarrow> int" where
  "rfind s sub =
     (if length sub \<le> length s then rfind_from s sub (length s - length sub) else - 1)"

text \<open>\<open>sub in s\<close> for two strings.\<close>

definition contains :: "str \<Rightarrow> str \<Rightarrow> bool" where
  "contains s sub \<longleftrightarrow> rfind s sub \<noteq> - 1"

text \<open>
  The slices \<open>s[k:]\<close> and \<open>s[:k]\<close>: a negative index counts from the end, and indices
  are clipped to the string.
\<close>

definition slice_from :: "str \<Rightarrow> int \<Rightarrow> str" where
  "slice_from s k = (if k < 0 then drop (nat (int (length s) + k)) s else drop (nat k) s)"

definition slice_to :: "str \<Rightarrow> int \<Rightarrow> str" where
  "slice_to s k = (if k < 0 then take (nat (int (length s) + k)) s else take (nat k) s)"

text \<open>
  \<open>s.replace(old, new)\<close>: every non-overlapping occurrence, from the left. With an empty
  \<open>old\<close>, Python puts \<open>new\<close> before every character and at the end.
\<close>

function replace :: "str \<Rightarrow> str \<Rightarrow> str \<Rightarrow> str" where
  "replace [] old new = (if old = [] then new else [])"
| "replace (c # cs) old new =
     (if old = [] then new @ c # replace cs old new
      else if startswith (c # cs) old then new @ replace (drop (length old) (c # cs)) old new
      else c # replace cs old new)"
  by pat_completeness auto
termination
  by (relation "measure (\<lambda>(s, old, new). length s)") auto

text \<open>\<open>s.split(sep)\<close> for a separator of one character: there is always at least one piece.\<close>

fun split :: "str \<Rightarrow> nat \<Rightarrow> str list" where
  "split [] sep = [[]]"
| "split (c # cs) sep =
     (if c = sep then [] # split cs sep
      else (case split cs sep of [] \<Rightarrow> [[c]] | p # ps \<Rightarrow> (c # p) # ps))"

subsection \<open>Operators on parsed JSON\<close>

text \<open>\<open>v == 0\<close>: an \<open>int\<close>, a \<open>bool\<close> or a \<open>float\<close> can be equal to \<open>0\<close>.\<close>

fun eq_zero :: "json \<Rightarrow> bool" where
  "eq_zero (JInt i) = (i = 0)"
| "eq_zero (JBool b) = (\<not> b)"
| "eq_zero (JFloat (Finite q)) = (q = 0)"
| "eq_zero _ = False"

text \<open>The truth value of \<open>v\<close>, as \<open>if not v\<close> tests it.\<close>

fun truthy :: "json \<Rightarrow> bool" where
  "truthy JNull = False"
| "truthy (JBool b) = b"
| "truthy (JInt i) = (i \<noteq> 0)"
| "truthy (JFloat (Finite q)) = (q \<noteq> 0)"
| "truthy (JFloat _) = True"
| "truthy (JStr s) = (s \<noteq> [])"
| "truthy (JArr xs) = (xs \<noteq> [])"
| "truthy (JObj kv) = (kv \<noteq> [])"

text \<open>
  \<open>key in data\<close> for a string \<open>key\<close>: key membership in a \<open>dict\<close>, element membership
  in a \<open>list\<close>, the substring test in a \<open>str\<close>, and \<open>TypeError\<close> for the other values,
  which are not iterable.
\<close>

fun py_in :: "str \<Rightarrow> json \<Rightarrow> exn + bool" where
  "py_in key (JObj kv) = Inr (map_of kv key \<noteq> None)"
| "py_in key (JArr xs) = Inr (JStr key \<in> set xs)"
| "py_in key (JStr s) = Inr (contains s key)"
| "py_in key _ = Inl TypeError"

text \<open>
  \<open>data[key]\<close> for a string \<open>key\<close>: \<open>KeyError\<close> for a \<open>dict\<close> without the key, and
  \<open>TypeError\<close> for every other value (a \<open>list\<close> or \<open>str\<close> takes integer indices only).
\<close>

fun getitem :: "json \<Rightarrow> str \<Rightarrow> exn + json" where
  "getitem (JObj kv) key = (case map_of kv key of None \<Rightarrow> Inl KeyError | Some v \<Rightarrow> Inr v)"
| "getitem _ key = Inl TypeError"

text \<open>\<open>data.get(key, default)\<close>: only a \<open>dict\<close> has the method.\<close>

fun dict_get :: "json \<Rightarrow> str \<Rightarrow> json \<Rightarrow> exn + json" where
  "dict_get (JObj kv) key dflt = (case map_of kv key of None \<Rightarrow> Inr dflt | Some v \<Rightarrow> Inr v)"
| "dict_get _ key dflt = Inl AttributeError"

text \<open>\<open>v.strip()\<close>: only a \<open>str\<close> has the method.\<close>

fun strip_method :: "json \<Rightarrow> exn + str" where
  "strip_method (JStr s) = Inr (strip s)"
| "strip_method _ = Inl AttributeError"

text \<open>\<open>v.replace(old, new)\<close>: only a \<open>str\<close> has the method.\<close>

fun replace_method :: "json \<Rightarrow> str \<Rightarrow> str \<Rightarrow> exn + str" where
  "replace_method (JStr s) old new = Inr (replace s old new)"
| "replace_method _ old new = Inl AttributeError"

text \<open>
  A value inside an f-string: a \<open>str\<close> is inserted as it is, any other value through
  Python's \<open>str()\<close>, which is the parameter \<open>fmt\<close>.
\<close>

definition format_value :: "(json \<Rightarrow> str) \<Rightarrow> json \<Rightarrow> str" where
  "format_value fmt v = (case v of JStr s \<Rightarrow> s | _ \<Rightarrow> fmt v)"

section \<open>The collaborators of the gateway\<close>

text \<open>A Python \<open>bytes\<close> object is a list of numbers below 256.\<close>

type_synonym bytes = "nat list"

text \<open>
  An \<open>httpx\<close> response that was read completely (\<open>client.post\<close>): its status code, what
  \<open>response.json()\<close> returns, the lines of \<open>response.aiter_lines()\<close>, and the chunks in
  which the worker sent the body.
\<close>

record response =
  status_code :: nat
  json_body :: "exn + json"
  aiter_lines :: "str list"
  received :: "bytes list"

text \<open>
  \<open>client.post\<close> reads the whole body before it returns: \<open>response.content\<close> is the
  concatenation of the chunks that the worker sent.
\<close>

definition content :: "response \<Rightarrow> bytes" where
  "content response = concat (received response)"

text \<open>
  \<open>response.aiter_bytes()\<close> on a response that was read completely: \<open>httpx\<close> yields the
  content as one chunk, and nothing when the content is empty.
\<close>

definition aiter_bytes :: "response \<Rightarrow> bytes list" where
  "aiter_bytes response = (if content response = [] then [] else [content response])"

text \<open>
  A response that is read while it arrives (\<open>client.stream\<close>): its status code, the lines
  that arrive, and the exception that ends the iteration after them, if the connection
  fails.
\<close>

record stream_response =
  stream_status :: nat
  stream_lines :: "str list"
  stream_failure :: "exn option"

text \<open>
  Everything outside the gateway: the image library behind \<open>process_image\<close> (it returns
  the hash and the base64 payload), the controller's reply to the lookup of a model, the
  worker's reply to a payload sent to an address, \<open>json.loads\<close>, Python's \<open>str()\<close>,
  the translations that the translation client returns for a text, and
  \<open>bytes.decode('utf-8')\<close>, where \<open>None\<close> stands for \<open>UnicodeDecodeError\<close>.
\<close>

record 'img env =
  process_image :: "'img \<Rightarrow> exn + str \<times> str"
  controller_post :: "str \<Rightarrow> exn + response"
  worker_post :: "json \<Rightarrow> json \<Rightarrow> exn + response"
  worker_stream :: "json \<Rightarrow> json \<Rightarrow> exn + stream_response"
  loads :: "str \<Rightarrow> exn + json"
  py_str :: "json \<Rightarrow> str"
  client_translate :: "str \<Rightarrow> exn + str list"
  utf8_decode :: "bytes \<Rightarrow> str option"

text \<open>\<open>response.raise_for_status()\<close>: \<open>HTTPStatusError\<close> unless the status is 2xx.\<close>

definition raise_for_status :: "nat \<Rightarrow> exn + unit" where
  "raise_for_status code = (if 200 \<le> code \<and> code < 300 then Inr () else Inl HTTPStatusError)"

section \<open>Worker locator and request builder\<close>

text \<open>\<open>get_worker_address\<close>, the same in \<open>main.py\<close> and \<open>llava_med_api.py\<close>.\<close>

definition get_worker_address :: "'img env \<Rightarrow> str \<Rightarrow> exn + json" where
  "get_worker_address env model =
     (case bindE (controller_post env model) (\<lambda>response.
           bindE (raise_for_status (status_code response)) (\<lambda>_.
           bindE (json_body response) (\<lambda>body.
           getitem body (ascii ''address'')))) of
        Inr address \<Rightarrow> Inr address
      | Inl e \<Rightarrow>
          if is_HTTPError e
          then Inl (HTTPException 503 (Msg ''Failed to get worker address from controller''))
          else Inl e)"

definition model_name :: str where
  "model_name = ascii ''llava-med-v1.5-mistral-7b''"

text \<open>
  The payload of \<open>generate\<close>, the same dictionary in both files. A \<open>float\<close> literal is
  given by its decimal.
\<close>

definition generate_payload :: "str \<Rightarrow> str \<Rightarrow> json" where
  "generate_payload prompt base64_image = JObj
     [(ascii ''model'', JStr model_name),
      (ascii ''prompt'', JStr (ascii ''[INST] <image>'' @ [0x0A] @ prompt @ ascii '' [/INST]'')),
      (ascii ''temperature'', JFloat (Finite 0.2)),
      (ascii ''top_p'', JFloat (Finite 0.7)),
      (ascii ''max_new_tokens'', JInt 512),
      (ascii ''stop'', JStr (ascii ''</s>'')),
      (ascii ''images'', JArr [JStr base64_image])]"

definition chat_payload :: "json list \<Rightarrow> str list \<Rightarrow> json" where
  "chat_payload messages processed_images = JObj
     [(ascii ''model'', JStr model_name),
      (ascii ''messages'', JArr messages),
      (ascii ''temperature'', JFloat (Finite 0.2)),
      (ascii ''top_p'', JFloat (Finite 0.7)),
      (ascii ''max_new_tokens'', JInt 512),
      (ascii ''stop'', JStr (ascii ''</s>'')),
      (ascii ''images'', JArr (map JStr processed_images))]"

text \<open>
  The handlers that close \<open>generate\<close> and \<open>chat\<close>, tried in the order of the source:
  \<open>httpx.RequestError\<close>, \<open>httpx.TimeoutException\<close>, \<open>Exception\<close>. An \<open>HTTPException\<close>
  raised inside the \<open>try\<close> block is an \<open>Exception\<close> too and reaches the last handler.
\<close>

definition endpoint_except :: "exn + 'a \<Rightarrow> exn + 'a" where
  "endpoint_except r =
     (case r of
        Inr v \<Rightarrow> Inr v
      | Inl e \<Rightarrow>
          if is_RequestError e
          then Inl (HTTPException 503 (Msg ''Service unavailable due to network error''))
          else if is_TimeoutException e
          then Inl (HTTPException 504 (Msg ''Worker request timed out''))
          else Inl (HTTPException 500 (Unexpected e)))"

text \<open>
  The first part of \<open>generate\<close> in both files, up to \<open>response.raise_for_status()\<close>:
  the image, the worker's address, the payload, the request to the worker.
\<close>

definition generate_dispatch :: "'img env \<Rightarrow> 'img \<Rightarrow> str \<Rightarrow> exn + response" where
  "generate_dispatch env upload prompt =
     bindE (process_image env upload) (\<lambda>(image_hash, base64_image).
     bindE (get_worker_address env model_name) (\<lambda>worker_address.
     bindE (worker_post env worker_address (generate_payload prompt base64_image)) (\<lambda>response.
     bindE (raise_for_status (status_code response)) (\<lambda>_.
     Inr response))))"

section \<open>Aggregation of the worker's lines (\<open>main.py\<close>)\<close>

text \<open>
  The body of the \<open>try\<close> statement for one line, the same in \<open>generate\<close> and \<open>chat\<close>:
  the text that is appended to \<open>full_response\<close>, if any, or the exception raised.
\<close>

definition line_text :: "(str \<Rightarrow> exn + json) \<Rightarrow> str \<Rightarrow> exn + str option" where
  "line_text ld line =
     bindE (ld line) (\<lambda>data.
     bindE (py_in (ascii ''error_code'') data) (\<lambda>has_code.
       if has_code then
         bindE (getitem data (ascii ''error_code'')) (\<lambda>code.
           if eq_zero code then
             bindE (py_in (ascii ''text'') data) (\<lambda>has_text.
               if has_text then
                 bindE (getitem data (ascii ''text'')) (\<lambda>text.
                 bindE (strip_method text) (\<lambda>chunk.
                 Inr (Some chunk)))
               else Inr None)
           else Inr None)
       else Inr None))"

text \<open>
  The whole \<open>try\<close> statement: \<open>json.JSONDecodeError\<close> appends the stripped line, any
  other exception is logged.
\<close>

definition process_line :: "(str \<Rightarrow> exn + json) \<Rightarrow> str \<Rightarrow> str list \<Rightarrow> str list" where
  "process_line ld line full_response =
     (case line_text ld line of
        Inr (Some chunk) \<Rightarrow> full_response @ [chunk]
      | Inr None \<Rightarrow> full_response
      | Inl e \<Rightarrow>
          if e = JSONDecodeError then full_response @ [strip line] else full_response)"

text \<open>The loop over \<open>response.aiter_lines()\<close>, which skips the empty lines.\<close>

fun read_lines :: "(str \<Rightarrow> exn + json) \<Rightarrow> str list \<Rightarrow> str list \<Rightarrow> str list" where
  "read_lines ld [] full_response = full_response"
| "read_lines ld (line # rest) full_response =
     read_lines ld rest
       (if line \<noteq> [] then process_line ld line full_response else full_response)"

text \<open>
  The end of \<open>generate\<close> in \<open>main.py\<close>, after the empty response is excluded. The first
  two assignments to \<open>generated_text\<close> are overwritten by the third.
\<close>

definition generate_cleanup :: "str \<Rightarrow> str" where
  \<open>generate_cleanup complete_response =
     (let generated_text =
            (if endswith complete_response (ascii ''", "error_code": 0}'')
             then slice_to complete_response (- int (length (ascii ''", "error_code": 0}'')))
             else complete_response);
          generated_text = rstrip_chars generated_text (ascii ''"'');
          instruction_end = rfind complete_response (ascii ''[/INST]'');
          generated_text =
            (if instruction_end \<noteq> - 1
             then strip (slice_from complete_response (instruction_end + 7))
             else strip complete_response)
      in generated_text)\<close>

definition generate_aggregate :: "(str \<Rightarrow> exn + json) \<Rightarrow> response \<Rightarrow> exn + str" where
  "generate_aggregate ld response =
     (let full_response = read_lines ld (aiter_lines response) [];
          complete_response = concat full_response
      in if complete_response = []
         then Inl (HTTPException 500 (Msg ''Worker returned empty response''))
         else Inr (generate_cleanup complete_response))"

text \<open>\<open>generate\<close> of \<open>main.py\<close>; the result is the value of \<open>generated_text\<close>.\<close>

definition generate :: "'img env \<Rightarrow> 'img \<Rightarrow> str \<Rightarrow> exn + str" where
  "generate env upload prompt =
     endpoint_except
       (bindE (generate_dispatch env upload prompt) (generate_aggregate (loads env)))"

text \<open>\<open>chat\<close> of \<open>main.py\<close>. No uploaded images and an empty list are treated alike.\<close>

fun process_images :: "'img env \<Rightarrow> 'img list \<Rightarrow> exn + str list" where
  "process_images env [] = Inr []"
| "process_images env (upload # rest) =
     bindE (process_image env upload) (\<lambda>(image_hash, base64_image).
     bindE (process_images env rest) (\<lambda>processed_images.
     Inr (base64_image # processed_images)))"

definition chat_dispatch :: "'img env \<Rightarrow> json list \<Rightarrow> 'img list \<Rightarrow> exn + response" where
  "chat_dispatch env messages images =
     bindE (get_worker_address env model_name) (\<lambda>worker_address.
     bindE (process_images env images) (\<lambda>processed_images.
     bindE (worker_post env worker_address (chat_payload messages processed_images)) (\<lambda>response.
     bindE (raise_for_status (status_code response)) (\<lambda>_.
     Inr response))))"

definition chat_aggregate :: "(str \<Rightarrow> exn + json) \<Rightarrow> response \<Rightarrow> exn + str" where
  "chat_aggregate ld response =
     (let full_response = read_lines ld (aiter_lines response) [];
          complete_response = concat full_response
      in if complete_response = []
         then Inl (HTTPException 500 (Msg ''Worker returned empty response''))
         else Inr complete_response)"

definition chat :: "'img env \<Rightarrow> json list \<Rightarrow> 'img list \<Rightarrow> exn + str" where
  "chat env messages images =
     endpoint_except
       (bindE (chat_dispatch env messages images) (chat_aggregate (loads env)))"

section \<open>Relay as server-sent events (\<open>llava_med_api.py\<close>)\<close>

definition data_frame :: "str \<Rightarrow> str" where
  "data_frame s = ascii ''data: '' @ s @ [0x0A, 0x0A]"

definition error_frame :: "str \<Rightarrow> str" where
  "error_frame s = ascii ''data: Error: '' @ s @ [0x0A, 0x0A]"


text \<open>
  The body of the \<open>try\<close> statement of \<open>stream_generator\<close> for one line: the frame it
  yields, if any, or the exception raised.
\<close>

definition line_event :: "(json \<Rightarrow> str) \<Rightarrow> (str \<Rightarrow> exn + json) \<Rightarrow> str \<Rightarrow> exn + str option" where
  "line_event fmt ld line =
     bindE (ld line) (\<lambda>data.
     bindE (py_in (ascii ''error_code'') data) (\<lambda>has_code.
       if has_code then
         bindE (getitem data (ascii ''error_code'')) (\<lambda>code.
         bindE (if eq_zero code then py_in (ascii ''text'') data else Inr False) (\<lambda>ok.
           if ok then
             bindE (getitem data (ascii ''text'')) (\<lambda>text.
             Inr (Some (data_frame (format_value fmt text))))
           else
             bindE (dict_get data (ascii ''text'') (JStr (ascii ''Unknown error''))) (\<lambda>text.
             Inr (Some (error_frame (format_value fmt text))))))
       else Inr None))"

text \<open>
  The whole \<open>try\<close> statement: the frames that one line adds to the output.
  \<open>json.JSONDecodeError\<close> yields the stripped line, any other exception is logged.
\<close>

definition line_frames :: "(json \<Rightarrow> str) \<Rightarrow> (str \<Rightarrow> exn + json) \<Rightarrow> str \<Rightarrow> str list" where
  "line_frames fmt ld line =
     (case line_event fmt ld line of
        Inr (Some frame) \<Rightarrow> [frame]
      | Inr None \<Rightarrow> []
      | Inl e \<Rightarrow> if e = JSONDecodeError then [data_frame (strip line)] else [])"

text \<open>The loop over the lines; \<open>out\<close> holds the frames yielded so far.\<close>

fun relay_lines :: "(json \<Rightarrow> str) \<Rightarrow> (str \<Rightarrow> exn + json) \<Rightarrow> str list \<Rightarrow> str list \<Rightarrow> str list" where
  "relay_lines fmt ld [] out = out"
| "relay_lines fmt ld (line # rest) out =
     relay_lines fmt ld rest (if line \<noteq> [] then out @ line_frames fmt ld line else out)"


section \<open>The last chunk and its translation (\<open>llava_med_api.py\<close>)\<close>

text \<open>
  \<open>translate_text\<close> returns the first translation; with no translation the loop body
  never runs and the function returns \<open>None\<close>.
\<close>

definition translate_text :: "'img env \<Rightarrow> str \<Rightarrow> exn + str option" where
  "translate_text env text =
     bindE (client_translate env text) (\<lambda>translations.
       case translations of [] \<Rightarrow> Inr None | translation # _ \<Rightarrow> Inr (Some translation))"

text \<open>\<open>chunk.decode('utf-8')\<close> with the decoder \<open>dec\<close>.\<close>

definition decode_utf8 :: "(bytes \<Rightarrow> str option) \<Rightarrow> bytes \<Rightarrow> exn + str" where
  "decode_utf8 dec chunk = (case dec chunk of None \<Rightarrow> Inl UnicodeDecodeError | Some s \<Rightarrow> Inr s)"

text \<open>
  The loop over \<open>reversed(json_objects)\<close>: the value of \<open>full_text\<close> after it. Only
  \<open>json.JSONDecodeError\<close> is caught here.
\<close>

fun find_text :: "(str \<Rightarrow> exn + json) \<Rightarrow> str list \<Rightarrow> exn + json" where
  "find_text ld [] = Inr (JStr [])"
| "find_text ld (json_str # rest) =
     (if strip json_str \<noteq> [] then
        (case ld json_str of
           Inl e \<Rightarrow> if e = JSONDecodeError then find_text ld rest else Inl e
         | Inr data \<Rightarrow>
             bindE (py_in (ascii ''text'') data) (\<lambda>has_text.
               if has_text then getitem data (ascii ''text'') else find_text ld rest))
      else find_text ld rest)"

text \<open>From the chunks of the response to \<open>generated_text\<close>.\<close>

definition last_chunk_text ::
  "(str \<Rightarrow> exn + json) \<Rightarrow> (bytes \<Rightarrow> str option) \<Rightarrow> str \<Rightarrow> response \<Rightarrow> exn + str" where
  "last_chunk_text ld dec prompt response =
     (let chunks = aiter_bytes response
      in if chunks = []
         then Inl (HTTPException 500 (Msg ''Worker returned empty response''))
         else
           bindE (decode_utf8 dec (last chunks)) (\<lambda>chunk_str.
           bindE (find_text ld (rev (split chunk_str 0))) (\<lambda>full_text.
             if \<not> truthy full_text
             then Inl (HTTPException 500 (Msg ''No valid text found in worker response''))
             else
               bindE (replace_method full_text
                        (ascii ''[INST] <image>'' @ [0x0A] @ prompt @ ascii '' [/INST]'') [])
                 (\<lambda>replaced. Inr (strip replaced)))))"

text \<open>
  \<open>generate\<close> of \<open>llava_med_api.py\<close>; the result is the value of \<open>translated_text\<close>,
  which the response carries as \<open>generated_text\<close>.
\<close>

definition llava_generate :: "'img env \<Rightarrow> 'img \<Rightarrow> str \<Rightarrow> exn + str option" where
  "llava_generate env upload prompt =
     endpoint_except
       (bindE (generate_dispatch env upload prompt) (\<lambda>response.
        bindE (last_chunk_text (loads env) (utf8_decode env) prompt response) (\<lambda>generated_text.
        translate_text env generated_text)))"

section \<open>Scripted collaborators\<close>

text \<open>
  A \<open>json.loads\<close> given by a table of the lines that parse; every other line raises
  \<open>json.JSONDecodeError\<close>.
\<close>

definition table_loads :: "(str \<times> json) list \<Rightarrow> str \<Rightarrow> exn + json" where
  "table_loads tbl line = (case map_of tbl line of None \<Rightarrow> Inl JSONDecodeError | Some v \<Rightarrow> Inr v)"

text \<open>
  A \<open>json.loads\<close> given by a table of the lines on which it raises an exception other
  than \<open>json.JSONDecodeError\<close>; it raises \<open>json.JSONDecodeError\<close> on every other line.
\<close>

definition raising_loads :: "(str \<times> exn) list \<Rightarrow> str \<Rightarrow> exn + json" where
  "raising_loads errs line = (case map_of errs line of None \<Rightarrow> Inl JSONDecodeError | Some e \<Rightarrow> Inl e)"

text \<open>The UTF-8 decoder on ASCII bodies, where it returns the bytes as they are.\<close>

definition ascii_decode :: "bytes \<Rightarrow> str option" where
  "ascii_decode b = (if list_all (\<lambda>c. c < 128) b then Some b else None)"

text \<open>A translation client that marks the text it was given.\<close>

definition marked_translation :: "str \<Rightarrow> exn + str list" where
  "marked_translation text = Inr [ascii ''[id] '' @ text]"

text \<open>A stand-in for Python's \<open>str()\<close> that prints every value as a question mark.\<close>

definition scripted_str :: "json \<Rightarrow> str" where
  "scripted_str v = ascii ''?''"

text \<open>
  Collaborators that answer every call alike: the image is processed, the controller and
  the worker give the scripted replies, and the translation client gives the scripted
  outcome.
\<close>

definition scripted_env ::
  "exn + response \<Rightarrow> exn + response \<Rightarrow> exn + stream_response \<Rightarrow> (str \<times> json) list \<Rightarrow>
   exn + str list \<Rightarrow> unit env" where
  "scripted_env controller worker stream tbl translations =
     \<lparr>process_image = (\<lambda>_. Inr (ascii ''d41d8cd9'', ascii ''aGk='')),
      controller_post = (\<lambda>_. controller),
      worker_post = (\<lambda>_ _. worker),
      worker_stream = (\<lambda>_ _. stream),
      loads = table_loads tbl,
      py_str = scripted_str,
      client_translate = (\<lambda>_. translations),
      utf8_decode = ascii_decode\<rparr>"

text \<open>A reply with the given status, JSON body, lines and chunks.\<close>

definition reply :: "nat \<Rightarrow> exn + json \<Rightarrow> str list \<Rightarrow> bytes list \<Rightarrow> response" where
  "reply code body ls cs =
     \<lparr>status_code = code, json_body = body, aiter_lines = ls, received = cs\<rparr>"

text \<open>A worker that answers with the payload it was sent, as the JSON body of its reply.\<close>

definition echo_worker :: "json \<Rightarrow> json \<Rightarrow> exn + response" where
  "echo_worker address payload = Inr (reply 200 (Inr payload) [] [])"

text \<open>The controller's reply that names the worker at \<open>http://w:1\<close>.\<close>

definition controller_ok :: "exn + response" where
  "controller_ok =
     Inr (reply 200 (Inr (JObj [(ascii ''address'', JStr (ascii ''http://w:1''))])) [] [])"


section \<open>The vocabulary of the properties\<close>

text \<open>
  A success fragment with text \<open>t\<close>: a line that is not empty and parses to an object
  whose status code equals \<open>0\<close> and whose text field is the string \<open>t\<close>.
\<close>

definition success_fragment :: "(str \<Rightarrow> exn + json) \<Rightarrow> str \<Rightarrow> str \<Rightarrow> bool" where
  "success_fragment ld line t \<longleftrightarrow>
     line \<noteq> [] \<and>
     (\<exists>kv code. ld line = Inr (JObj kv) \<and> map_of kv (ascii ''error_code'') = Some code \<and>
        eq_zero code \<and> map_of kv (ascii ''text'') = Some (JStr t))"

text \<open>
  A line is usable with text \<open>t\<close> when it brings the text \<open>t\<close>, which is not empty,
  into the aggregate: the trimmed text of a success fragment, or the trimmed line itself
  when it is not JSON.
\<close>

definition usable_line :: "(str \<Rightarrow> exn + json) \<Rightarrow> str \<Rightarrow> str \<Rightarrow> bool" where
  "usable_line ld line t \<longleftrightarrow>
     line \<noteq> [] \<and> t \<noteq> [] \<and>
     ((ld line = Inl JSONDecodeError \<and> t = strip line) \<or>
      (\<exists>raw. success_fragment ld line raw \<and> t = strip raw))"

text \<open>
  A piece of the body is a text piece with value \<open>v\<close> when it is not blank and parses
  to an object whose text field has the value \<open>v\<close>.
\<close>

definition text_piece :: "(str \<Rightarrow> exn + json) \<Rightarrow> str \<Rightarrow> json \<Rightarrow> bool" where
  "text_piece ld piece v \<longleftrightarrow>
     strip piece \<noteq> [] \<and>
     (\<exists>kv. ld piece = Inr (JObj kv) \<and> map_of kv (ascii ''text'') = Some v)"

text \<open>
  A piece of the body is passed over when it is blank, is not JSON, or parses to an
  object without a text field, to a list that does not hold the string \<open>text\<close>, or to a
  string in which \<open>text\<close> does not occur.
\<close>

definition passed_over :: "(str \<Rightarrow> exn + json) \<Rightarrow> str \<Rightarrow> bool" where
  "passed_over ld piece \<longleftrightarrow>
     strip piece = [] \<or> ld piece = Inl JSONDecodeError \<or>
     (\<exists>kv. ld piece = Inr (JObj kv) \<and> map_of kv (ascii ''text'') = None) \<or>
     (\<exists>xs. ld piece = Inr (JArr xs) \<and> JStr (ascii ''text'') \<notin> set xs) \<or>
     (\<exists>s. ld piece = Inr (JStr s) \<and> \<not> contains s (ascii ''text''))"

text \<open>
  A piece of the body breaks the scan with the exception \<open>e\<close> when it is not blank and
  either \<open>json.loads\<close> raises \<open>e\<close>, which is not \<open>JSONDecodeError\<close>, or \<open>e\<close> is
  \<open>TypeError\<close> and the piece parses to \<open>null\<close>, a boolean or a number, to a list that
  holds the string \<open>text\<close>, or to a string in which \<open>text\<close> occurs.
\<close>

definition breaking :: "(str \<Rightarrow> exn + json) \<Rightarrow> str \<Rightarrow> exn \<Rightarrow> bool" where
  "breaking ld piece e \<longleftrightarrow>
     strip piece \<noteq> [] \<and>
     ((ld piece = Inl e \<and> e \<noteq> JSONDecodeError) \<or>
      (e = TypeError \<and>
       (ld piece = Inr JNull \<or> (\<exists>b. ld piece = Inr (JBool b)) \<or>
        (\<exists>i. ld piece = Inr (JInt i)) \<or> (\<exists>f. ld piece = Inr (JFloat f)) \<or>
        (\<exists>xs. ld piece = Inr (JArr xs) \<and> JStr (ascii ''text'') \<in> set xs) \<or>
        (\<exists>s. ld piece = Inr (JStr s) \<and> contains s (ascii ''text'')))))"

text \<open>The string \<open>sub\<close> occurs in \<open>s\<close> at index \<open>i\<close>.\<close>

definition occurs_at :: "str \<Rightarrow> str \<Rightarrow> nat \<Rightarrow> bool" where
  "occurs_at sub s i \<longleftrightarrow> i + length sub \<le> length s \<and> take (length sub) (drop i s) = sub"

text \<open>
  The cleanup as the specification words it, for comparison with \<open>generate_cleanup\<close>:
  keep the text after the last closing instruction marker, then trim the trailing
  error-code suffix and the trailing quote characters.
\<close>

definition stated_cleanup :: "str \<Rightarrow> str" where
  \<open>stated_cleanup s =
     (let kept = (if contains s (ascii ''[/INST]'')
                  then slice_from s (rfind s (ascii ''[/INST]'') + 7) else s);
          kept = (if endswith kept (ascii ''", "error_code": 0}'')
                  then slice_to kept (- int (length (ascii ''", "error_code": 0}''))) else kept)
      in rstrip_chars kept (ascii ''"''))\<close>

section \<open>Lemmas on the string functions\<close>

lemma rfind_from_last:
  "n + length sub \<le> length s \<Longrightarrow> i \<le> n \<Longrightarrow> occurs_at sub s i \<Longrightarrow>
   (\<forall>j. i < j \<and> j \<le> n \<longrightarrow> \<not> occurs_at sub s j) \<Longrightarrow> rfind_from s sub n = int i"
proof (induction n)
  case 0
  then show ?case by (simp add: occurs_at_def startswith_def)
next
  case (Suc n)
  show ?case
  proof (cases "i = Suc n")
    case True
    with Suc.prems show ?thesis by (simp add: occurs_at_def startswith_def)
  next
    case False
    with Suc.prems have "i \<le> n" by simp
    moreover from Suc.prems False have "\<not> occurs_at sub s (Suc n)" by simp
    with Suc.prems have "\<not> startswith (drop (Suc n) s) sub"
      by (simp add: occurs_at_def startswith_def)
    ultimately show ?thesis using Suc by simp
  qed
qed

lemma rfind_from_none:
  "n + length sub \<le> length s \<Longrightarrow> (\<forall>j\<le>n. \<not> occurs_at sub s j) \<Longrightarrow> rfind_from s sub n = - 1"
proof (induction n)
  case 0
  then show ?case by (simp add: occurs_at_def startswith_def)
next
  case (Suc n)
  from Suc.prems have "\<not> occurs_at sub s (Suc n)" by simp
  with Suc.prems have "\<not> startswith (drop (Suc n) s) sub"
    by (simp add: occurs_at_def startswith_def)
  with Suc show ?case by simp
qed

lemma rfind_last:
  assumes "occurs_at sub s i" and "\<forall>j>i. \<not> occurs_at sub s j"
  shows "rfind s sub = int i"
proof -
  from assms(1) have bound: "i + length sub \<le> length s"
    by (simp add: occurs_at_def)
  then have le: "length sub \<le> length s" and i: "i \<le> length s - length sub"
    by arith+
  from le have "(length s - length sub) + length sub \<le> length s" by simp
  from rfind_from_last [OF this i assms(1)] assms(2) le show ?thesis
    by (simp add: rfind_def)
qed

lemma rfind_none:
  assumes "\<forall>j. \<not> occurs_at sub s j"
  shows "rfind s sub = - 1"
proof (cases "length sub \<le> length s")
  case True
  then have "(length s - length sub) + length sub \<le> length s" by simp
  from rfind_from_none [OF this] assms True show ?thesis by (simp add: rfind_def)
next
  case False
  then show ?thesis by (simp add: rfind_def)
qed

lemma rfind_from_sound:
  "n + length sub \<le> length s \<Longrightarrow> rfind_from s sub n = int i \<Longrightarrow>
   occurs_at sub s i \<and> i \<le> n \<and> (\<forall>j. i < j \<and> j \<le> n \<longrightarrow> \<not> occurs_at sub s j)"
proof (induction n)
  case 0
  then show ?case by (simp add: occurs_at_def startswith_def split: if_splits)
next
  case (Suc n)
  show ?case
  proof (cases "startswith (drop (Suc n) s) sub")
    case True
    with Suc.prems have "int (Suc n) = int i" by (simp del: of_nat_Suc)
    then have "i = Suc n" by (simp only: of_nat_eq_iff)
    with True Suc.prems show ?thesis by (auto simp: occurs_at_def startswith_def)
  next
    case False
    with Suc.prems have "rfind_from s sub n = int i" by simp
    with Suc have IH: "occurs_at sub s i \<and> i \<le> n \<and> (\<forall>j. i < j \<and> j \<le> n \<longrightarrow> \<not> occurs_at sub s j)"
      by simp
    from False have "\<not> occurs_at sub s (Suc n)" by (simp add: occurs_at_def startswith_def)
    with IH show ?thesis by (auto simp: le_Suc_eq)
  qed
qed

lemma rfind_sound:
  assumes "rfind s sub = int i"
  shows "occurs_at sub s i \<and> (\<forall>j>i. \<not> occurs_at sub s j)"
proof -
  from assms have le: "length sub \<le> length s" by (simp add: rfind_def split: if_splits)
  with assms have r: "rfind_from s sub (length s - length sub) = int i" by (simp add: rfind_def)
  from le have "(length s - length sub) + length sub \<le> length s" by simp
  from rfind_from_sound [OF this r]
  have occ: "occurs_at sub s i" and up: "\<forall>j. i < j \<and> j \<le> length s - length sub \<longrightarrow> \<not> occurs_at sub s j"
    by simp_all
  have "\<not> occurs_at sub s j" if "i < j" for j
  proof (cases "j \<le> length s - length sub")
    case True
    with up that show ?thesis by simp
  next
    case False
    then show ?thesis by (auto simp: occurs_at_def)
  qed
  with occ show ?thesis by simp
qed

lemma rfind_from_range: "rfind_from s sub n = - 1 \<or> (\<exists>i. rfind_from s sub n = int i)"
  by (induction n) (auto simp del: of_nat_Suc)

lemma rfind_absent:
  assumes "rfind s sub = - 1"
  shows "\<not> occurs_at sub s j"
proof
  assume occ: "occurs_at sub s j"
  define m where "m = length s - length sub"
  from occ have jm: "j \<le> m" and le: "length sub \<le> length s" by (auto simp: occurs_at_def m_def)
  have "\<exists>i. rfind_from s sub n = int i" if "j \<le> n" for n
    using that
  proof (induction n)
    case 0
    with occ show ?case by (simp add: occurs_at_def startswith_def)
  next
    case (Suc n)
    show ?case
    proof (cases "j = Suc n")
      case True
      with occ show ?thesis by (auto simp: occurs_at_def startswith_def simp del: of_nat_Suc)
    next
      case False
      with Suc show ?thesis by (auto simp del: of_nat_Suc)
    qed
  qed
  from this [OF jm] assms le show False by (simp add: rfind_def m_def)
qed

section \<open>Lemmas on the aggregation loop\<close>

lemma process_line_acc: "process_line ld line acc = acc @ process_line ld line []"
  by (simp add: process_line_def split: sum.splits option.splits)

lemma read_lines_acc: "read_lines ld ls acc = acc @ read_lines ld ls []"
proof (induction ls arbitrary: acc)
  case Nil
  then show ?case by simp
next
  case (Cons l ls)
  show ?case
    using Cons.IH [of "process_line ld l acc"] Cons.IH [of "process_line ld l []"]
      Cons.IH [of acc] process_line_acc [of ld l acc]
    by simp
qed

lemma read_lines_Cons:
  "read_lines ld (l # ls) [] = (if l \<noteq> [] then process_line ld l [] else []) @ read_lines ld ls []"
  using read_lines_acc [of ld ls "process_line ld l []"] by simp

lemma read_lines_append:
  "read_lines ld (xs @ ys) [] = read_lines ld xs [] @ read_lines ld ys []"
  by (induction xs) (simp_all add: read_lines_Cons del: read_lines.simps(2))

lemma line_text_success:
  "success_fragment ld line t \<Longrightarrow> line_text ld line = Inr (Some (strip t))"
  by (auto simp: success_fragment_def line_text_def bindE_def)

lemma process_line_success:
  "success_fragment ld line t \<Longrightarrow> process_line ld line [] = [strip t]"
  by (simp add: process_line_def line_text_success)

lemma read_lines_success:
  "list_all2 (success_fragment ld) ls ts \<Longrightarrow> read_lines ld ls [] = map strip ts"
proof (induction rule: list_all2_induct)
  case Nil
  then show ?case by simp
next
  case (Cons l t ls ts)
  then show ?case
    by (simp add: read_lines_Cons process_line_success success_fragment_def del: read_lines.simps(2))
qed

lemma process_line_raw:
  "ld line = Inl JSONDecodeError \<Longrightarrow> process_line ld line [] = [strip line]"
  by (simp add: process_line_def line_text_def bindE_def)

lemma generate_cleanup_last:
  "occurs_at (ascii ''[/INST]'') s i \<Longrightarrow> \<forall>j>i. \<not> occurs_at (ascii ''[/INST]'') s j \<Longrightarrow>
   generate_cleanup s = strip (drop (i + 7) s)"
  by (simp add: generate_cleanup_def rfind_last slice_from_def Let_def nat_add_distrib)

lemma generate_cleanup_none:
  "\<forall>j. \<not> occurs_at (ascii ''[/INST]'') s j \<Longrightarrow> generate_cleanup s = strip s"
  by (simp add: generate_cleanup_def rfind_none Let_def)

lemma aiter_lines_reply: "aiter_lines (reply code body ls cs) = ls"
  by (simp add: reply_def)

lemma process_line_dropped:
  assumes "ld line = Inr (JObj kv)"
    and "map_of kv (ascii ''error_code'') = None \<or>
         (\<exists>code. map_of kv (ascii ''error_code'') = Some code \<and>
            (\<not> eq_zero code \<or> map_of kv (ascii ''text'') = None))"
  shows "process_line ld line [] = []"
  using assms by (auto simp: process_line_def line_text_def bindE_def)

lemma line_text_Some:
  assumes "line_text ld line = Inr (Some chunk)" and "line \<noteq> []"
  shows "\<exists>raw. success_fragment ld line raw \<and> chunk = strip raw"
proof -
  from assms(1) obtain data where data: "ld line = Inr data"
    by (cases "ld line") (simp_all add: line_text_def bindE_def)
  show ?thesis
  proof (cases data)
    case (JObj kv)
    with assms data show ?thesis
      by (cases "map_of kv (ascii ''text'')"; cases "the (map_of kv (ascii ''text''))")
        (auto simp: line_text_def bindE_def success_fragment_def split: if_splits option.splits)
  qed (use assms data in \<open>auto simp: line_text_def bindE_def split: if_splits\<close>)
qed

lemma strip_method_error: "strip_method v = Inl e \<Longrightarrow> e = AttributeError"
  by (cases v) simp_all

lemma line_text_decode_error:
  assumes "line_text ld line = Inl JSONDecodeError"
  shows "ld line = Inl JSONDecodeError"
proof (cases "ld line")
  case (Inl e)
  with assms show ?thesis by (simp add: line_text_def bindE_def)
next
  case (Inr data)
  with assms show ?thesis
    by (cases data)
      (auto simp: line_text_def bindE_def dest: strip_method_error
        split: if_splits option.splits sum.splits)
qed

lemma process_line_unusable:
  assumes "line \<noteq> []" and "\<forall>t. \<not> usable_line ld line t"
  shows "concat (process_line ld line []) = []"
proof (cases "line_text ld line")
  case (Inl e)
  show ?thesis
  proof (cases "e = JSONDecodeError")
    case True
    with Inl have "ld line = Inl JSONDecodeError" by (simp add: line_text_decode_error)
    with assms have "strip line = []" by (auto simp: usable_line_def)
    with Inl True show ?thesis by (simp add: process_line_def)
  next
    case False
    with Inl show ?thesis by (simp add: process_line_def)
  qed
next
  case (Inr r)
  show ?thesis
  proof (cases r)
    case None
    with Inr show ?thesis by (simp add: process_line_def)
  next
    case (Some chunk)
    with Inr line_text_Some [of ld line chunk] assms
    obtain raw where "success_fragment ld line raw" "chunk = strip raw" by auto
    with assms have "chunk = []" by (auto simp: usable_line_def)
    with Inr Some show ?thesis by (simp add: process_line_def)
  qed
qed

lemma read_lines_unusable:
  "\<forall>line\<in>set ls. \<forall>t. \<not> usable_line ld line t \<Longrightarrow> concat (read_lines ld ls []) = []"
  by (induction ls)
    (simp_all add: read_lines_Cons process_line_unusable
      del: read_lines.simps(2) concat_eq_Nil_conv)

lemma process_line_other:
  "ld line = Inl e \<Longrightarrow> e \<noteq> JSONDecodeError \<Longrightarrow> process_line ld line [] = []"
  by (simp add: process_line_def line_text_def bindE_def)

section \<open>Lemmas on the relay loop\<close>

lemma relay_lines_acc: "relay_lines fmt ld ls out = out @ relay_lines fmt ld ls []"
proof (induction ls arbitrary: out)
  case Nil
  show ?case by simp
next
  case (Cons l ls)
  show ?case
    using Cons.IH [of "out @ line_frames fmt ld l"] Cons.IH [of "line_frames fmt ld l"]
      Cons.IH [of out]
    by simp
qed

lemma relay_lines_Cons:
  "relay_lines fmt ld (l # ls) [] =
     (if l \<noteq> [] then line_frames fmt ld l else []) @ relay_lines fmt ld ls []"
  using relay_lines_acc [of fmt ld ls "line_frames fmt ld l"] by simp

lemma relay_lines_append:
  "relay_lines fmt ld (xs @ ys) [] = relay_lines fmt ld xs [] @ relay_lines fmt ld ys []"
  by (induction xs) (simp_all add: relay_lines_Cons del: relay_lines.simps(2))


lemma line_frames_raw:
  "ld line = Inl JSONDecodeError \<Longrightarrow> line_frames fmt ld line = [data_frame (strip line)]"
  by (simp add: line_frames_def line_event_def bindE_def)

lemma line_frames_other:
  "ld line = Inl e \<Longrightarrow> e \<noteq> JSONDecodeError \<Longrightarrow> line_frames fmt ld line = []"
  by (simp add: line_frames_def line_event_def bindE_def)

section \<open>Lemmas on the endpoints and the last chunk\<close>

lemma endpoint_except_other:
  "\<not> is_RequestError e \<Longrightarrow> endpoint_except (Inl e) = Inl (HTTPException 500 (Unexpected e))"
  by (cases e) (simp_all add: endpoint_except_def)

lemma find_text_passed_over:
  "\<forall>q\<in>set qs. passed_over ld q \<Longrightarrow> find_text ld (qs @ rest) = find_text ld rest"
  by (induction qs) (auto simp: passed_over_def bindE_def)

lemma find_text_all_passed_over:
  "\<forall>q\<in>set qs. passed_over ld q \<Longrightarrow> find_text ld qs = Inr (JStr [])"
  using find_text_passed_over [of qs ld "[]"] by simp

lemma find_text_text_piece:
  "text_piece ld piece v \<Longrightarrow> find_text ld (piece # rest) = Inr v"
  by (auto simp: text_piece_def bindE_def)

lemma find_text_breaking:
  "breaking ld piece e \<Longrightarrow> find_text ld (piece # rest) = Inl e"
  by (auto simp: breaking_def bindE_def)

lemma piece_kinds:
  "passed_over ld piece \<or> (\<exists>v. text_piece ld piece v) \<or> (\<exists>e. breaking ld piece e)"
proof (cases "strip piece = []")
  case True
  then show ?thesis by (simp add: passed_over_def)
next
  case False
  show ?thesis
  proof (cases "ld piece")
    case (Inl e)
    with False show ?thesis by (cases "e = JSONDecodeError") (auto simp: passed_over_def breaking_def)
  next
    case (Inr data)
    with False show ?thesis
      by (cases data) (auto simp: passed_over_def breaking_def text_piece_def)
  qed
qed

lemma find_text_decisive:
  assumes "\<forall>q\<in>set after. passed_over ld q"
  shows "find_text ld (rev after @ piece # rev before) = find_text ld (piece # rev before)"
proof -
  from assms have "\<forall>q\<in>set (rev after). passed_over ld q" by simp
  from find_text_passed_over [OF this] show ?thesis .
qed

lemma llava_generate_scan:
  assumes "generate_dispatch env upload prompt = Inr response"
    and "content response \<noteq> []"
    and "utf8_decode env (content response) = Some chunk_str"
  shows "llava_generate env upload prompt =
           endpoint_except
             (bindE
                (bindE (find_text (loads env) (rev (split chunk_str 0))) (\<lambda>full_text.
                   if \<not> truthy full_text
                   then Inl (HTTPException 500 (Msg ''No valid text found in worker response''))
                   else
                     bindE (replace_method full_text
                              (ascii ''[INST] <image>'' @ [0x0A] @ prompt @ ascii '' [/INST]'') [])
                       (\<lambda>replaced. Inr (strip replaced))))
                (translate_text env))"
  using assms
  by (simp add: llava_generate_def last_chunk_text_def aiter_bytes_def decode_utf8_def bindE_def)

lemma replace_method_not_str: "\<forall>t. v \<noteq> JStr t \<Longrightarrow> replace_method v old new = Inl AttributeError"
  by (cases v) simp_all

section \<open>Lemmas on the scripted collaborators\<close>

lemma loads_scripted_env: "loads (scripted_env controller worker stream tbl translations) = table_loads tbl"
  by (simp add: scripted_env_def)

lemma get_worker_address_ok:
  "get_worker_address (scripted_env controller_ok worker stream tbl translations) model =
     Inr (JStr (ascii ''http://w:1''))"
  by (simp add: get_worker_address_def scripted_env_def controller_ok_def reply_def bindE_def
      raise_for_status_def ascii_def)

lemma generate_dispatch_scripted:
  "generate_dispatch
     (scripted_env controller_ok (Inr (reply 200 body ls cs)) stream tbl translations) upload prompt =
   Inr (reply 200 body ls cs)"
  by (simp add: generate_dispatch_def get_worker_address_ok bindE_def raise_for_status_def)
    (simp add: scripted_env_def reply_def)

lemma chat_dispatch_scripted:
  "chat_dispatch
     (scripted_env controller_ok (Inr (reply 200 body ls cs)) stream tbl translations) messages [] =
   Inr (reply 200 body ls cs)"
  by (simp add: chat_dispatch_def get_worker_address_ok bindE_def raise_for_status_def)
    (simp add: scripted_env_def reply_def)

lemma content_reply: "content (reply code body ls cs) = concat cs"
  by (simp add: content_def reply_def)



lemma client_translate_scripted:
  "client_translate (scripted_env controller worker stream tbl translations) text = translations"
  by (simp add: scripted_env_def)

lemma get_worker_address_worker_post:
  "get_worker_address (env\<lparr>worker_post := w\<rparr>) model = get_worker_address env model"
  by (simp add: get_worker_address_def)

lemma generate_dispatch_client_translate:
  "generate_dispatch (env\<lparr>client_translate := f\<rparr>) upload prompt = generate_dispatch env upload prompt"
  by (simp add: generate_dispatch_def get_worker_address_def)

lemma utf8_decode_scripted:
  "utf8_decode (scripted_env controller worker stream tbl translations) = ascii_decode"
  by (simp add: scripted_env_def)

section \<open>The aggregate of \<open>generate\<close>\<close>

text \<open>
  Claim C1, as stated, fails. Two success fragments with the texts \<open>"no "\<close> and
  \<open>"fracture"\<close> carry no instruction marker, no quote and no error-code suffix, so the
  stated cleanup leaves their concatenation \<open>"no fracture"\<close> as it is; \<open>generate\<close>
  returns \<open>"nofracture"\<close>.
\<close>

theorem generate_concatenation_counterexample:
  \<open>list_all2
     (success_fragment
        (table_loads
           [(ascii ''{"error_code": 0, "text": "no "}'',
             JObj [(ascii ''error_code'', JInt 0), (ascii ''text'', JStr (ascii ''no ''))]),
            (ascii ''{"error_code": 0, "text": "fracture"}'',
             JObj [(ascii ''error_code'', JInt 0), (ascii ''text'', JStr (ascii ''fracture''))])]))
     [ascii ''{"error_code": 0, "text": "no "}'', ascii ''{"error_code": 0, "text": "fracture"}'']
     [ascii ''no '', ascii ''fracture''] \<and>
   stated_cleanup (concat [ascii ''no '', ascii ''fracture'']) = ascii ''no fracture'' \<and>
   generate
     (scripted_env controller_ok
        (Inr (reply 200 (Inl JSONDecodeError)
           [ascii ''{"error_code": 0, "text": "no "}'',
            ascii ''{"error_code": 0, "text": "fracture"}''] []))
        (Inl RequestError)
        [(ascii ''{"error_code": 0, "text": "no "}'',
          JObj [(ascii ''error_code'', JInt 0), (ascii ''text'', JStr (ascii ''no ''))]),
         (ascii ''{"error_code": 0, "text": "fracture"}'',
          JObj [(ascii ''error_code'', JInt 0), (ascii ''text'', JStr (ascii ''fracture''))])]
        (Inr []))
     () (ascii ''q'') = Inr (ascii ''nofracture'') \<and>
   Inr (ascii ''nofracture'') \<noteq>
     (Inr (stated_cleanup (concat [ascii ''no '', ascii ''fracture''])) :: exn + str)\<close>
proof -
  let ?tbl = \<open>[(ascii ''{"error_code": 0, "text": "no "}'',
          JObj [(ascii ''error_code'', JInt 0), (ascii ''text'', JStr (ascii ''no ''))]),
         (ascii ''{"error_code": 0, "text": "fracture"}'',
          JObj [(ascii ''error_code'', JInt 0), (ascii ''text'', JStr (ascii ''fracture''))])]\<close>
  let ?ls = \<open>[ascii ''{"error_code": 0, "text": "no "}'',
            ascii ''{"error_code": 0, "text": "fracture"}'']\<close>
  have frags: "list_all2 (success_fragment (table_loads ?tbl)) ?ls [ascii ''no '', ascii ''fracture'']"
    by (simp add: success_fragment_def table_loads_def ascii_def)
  have stated: "stated_cleanup (concat [ascii ''no '', ascii ''fracture'']) = ascii ''no fracture''"
    by (simp add: stated_cleanup_def contains_def rfind_def startswith_def endswith_def
        rstrip_chars_def ascii_def)
  have lines: "read_lines (table_loads ?tbl) ?ls [] = [ascii ''no'', ascii ''fracture'']"
    by (simp add: process_line_def line_text_def bindE_def table_loads_def ascii_def
        strip_def lstrip_def rstrip_def isspace_def)
  have cleanup: "generate_cleanup (ascii ''nofracture'') = ascii ''nofracture''"
    by (simp add: generate_cleanup_def rfind_def startswith_def endswith_def slice_from_def
        slice_to_def rstrip_chars_def strip_def lstrip_def rstrip_def isspace_def ascii_def)
  have "concat [ascii ''no'', ascii ''fracture''] = ascii ''nofracture''"
    by (simp add: ascii_def)
  with lines cleanup
  have result: "generate
     (scripted_env controller_ok (Inr (reply 200 (Inl JSONDecodeError) ?ls [])) (Inl RequestError)
        ?tbl (Inr [])) () (ascii ''q'') = Inr (ascii ''nofracture'')"
    by (simp add: generate_def generate_dispatch_scripted bindE_def generate_aggregate_def
        aiter_lines_reply loads_scripted_env endpoint_except_def)
      (simp add: ascii_def)
  have "ascii ''nofracture'' \<noteq> ascii ''no fracture''"
    by (simp add: ascii_def)
  with frags stated result show ?thesis
    by simp
qed

text \<open>
  Claim C1, amended. For a stream of success fragments only, whose stripped texts are not
  all empty, \<open>generate\<close> works on the concatenation, in arrival order, of the stripped
  texts: it returns the text after the last occurrence of the closing instruction marker,
  stripped, and the whole concatenation, stripped, when the marker does not occur. The
  statement is about aggregates that end with neither a quote character nor the
  error-code suffix.
\<close>

theorem generate_keeps_text_after_last_marker:
  assumes "generate_dispatch env upload prompt = Inr response"
    and "list_all2 (success_fragment (loads env)) (aiter_lines response) texts"
    and "concat (map strip texts) \<noteq> []"
    and \<open>\<not> endswith (concat (map strip texts)) (ascii ''"'')\<close>
    and \<open>\<not> endswith (concat (map strip texts)) (ascii ''", "error_code": 0}'')\<close>
  shows "(\<forall>i. occurs_at (ascii ''[/INST]'') (concat (map strip texts)) i \<and>
              (\<forall>j>i. \<not> occurs_at (ascii ''[/INST]'') (concat (map strip texts)) j) \<longrightarrow>
              generate env upload prompt = Inr (strip (drop (i + 7) (concat (map strip texts))))) \<and>
         ((\<forall>j. \<not> occurs_at (ascii ''[/INST]'') (concat (map strip texts)) j) \<longrightarrow>
              generate env upload prompt = Inr (strip (concat (map strip texts))))"
proof -
  have "generate env upload prompt = Inr (generate_cleanup (concat (map strip texts)))"
    using assms(1,3) read_lines_success [OF assms(2)]
    by (simp add: generate_def bindE_def generate_aggregate_def endpoint_except_def)
  then show ?thesis
    by (simp add: generate_cleanup_last generate_cleanup_none)
qed

text \<open>
  With the marker: the texts \<open>"[INST] q [/INST] No "\<close> and \<open>"fracture "\<close> give
  \<open>"Nofracture"\<close>. Without it: the text \<open>" Normal. "\<close> gives \<open>"Normal."\<close>.
\<close>

theorem generate_keeps_text_after_last_marker_witness:
  \<open>list_all2
     (success_fragment
        (table_loads
           [(ascii ''{"error_code": 0, "text": "[INST] q [/INST] No "}'',
             JObj [(ascii ''error_code'', JInt 0),
                   (ascii ''text'', JStr (ascii ''[INST] q [/INST] No ''))]),
            (ascii ''{"error_code": 0, "text": "fracture "}'',
             JObj [(ascii ''error_code'', JInt 0), (ascii ''text'', JStr (ascii ''fracture ''))])]))
     [ascii ''{"error_code": 0, "text": "[INST] q [/INST] No "}'',
      ascii ''{"error_code": 0, "text": "fracture "}'']
     [ascii ''[INST] q [/INST] No '', ascii ''fracture ''] \<and>
   occurs_at (ascii ''[/INST]'') (ascii ''[INST] q [/INST] Nofracture'') 9 \<and>
   generate
     (scripted_env controller_ok
        (Inr (reply 200 (Inl JSONDecodeError)
           [ascii ''{"error_code": 0, "text": "[INST] q [/INST] No "}'',
            ascii ''{"error_code": 0, "text": "fracture "}''] []))
        (Inl RequestError)
        [(ascii ''{"error_code": 0, "text": "[INST] q [/INST] No "}'',
          JObj [(ascii ''error_code'', JInt 0),
                (ascii ''text'', JStr (ascii ''[INST] q [/INST] No ''))]),
         (ascii ''{"error_code": 0, "text": "fracture "}'',
          JObj [(ascii ''error_code'', JInt 0), (ascii ''text'', JStr (ascii ''fracture ''))])]
        (Inr []))
     () (ascii ''q'') = Inr (ascii ''Nofracture'') \<and>
   generate
     (scripted_env controller_ok
        (Inr (reply 200 (Inl JSONDecodeError) [ascii ''{"error_code": 0, "text": " Normal. "}''] []))
        (Inl RequestError)
        [(ascii ''{"error_code": 0, "text": " Normal. "}'',
          JObj [(ascii ''error_code'', JInt 0), (ascii ''text'', JStr (ascii '' Normal. ''))])]
        (Inr []))
     () (ascii ''q'') = Inr (ascii ''Normal.'')\<close>
proof -
  let ?tbl = \<open>[(ascii ''{"error_code": 0, "text": "[INST] q [/INST] No "}'',
          JObj [(ascii ''error_code'', JInt 0),
                (ascii ''text'', JStr (ascii ''[INST] q [/INST] No ''))]),
         (ascii ''{"error_code": 0, "text": "fracture "}'',
          JObj [(ascii ''error_code'', JInt 0), (ascii ''text'', JStr (ascii ''fracture ''))])]\<close>
  let ?ls = \<open>[ascii ''{"error_code": 0, "text": "[INST] q [/INST] No "}'',
            ascii ''{"error_code": 0, "text": "fracture "}'']\<close>
  let ?ts = "[ascii ''[INST] q [/INST] No '', ascii ''fracture '']"
  let ?agg = "ascii ''[INST] q [/INST] Nofracture''"
  let ?env = "scripted_env controller_ok (Inr (reply 200 (Inl JSONDecodeError) ?ls []))
                (Inl RequestError) ?tbl (Inr [])"
  have dispatch: "generate_dispatch ?env () (ascii ''q'') = Inr (reply 200 (Inl JSONDecodeError) ?ls [])"
    by (rule generate_dispatch_scripted)
  have frags0: "list_all2 (success_fragment (table_loads ?tbl)) ?ls ?ts"
    by (simp add: success_fragment_def table_loads_def ascii_def)
  then have frags: "list_all2 (success_fragment (loads ?env))
                      (aiter_lines (reply 200 (Inl JSONDecodeError) ?ls [])) ?ts"
    by (simp only: loads_scripted_env aiter_lines_reply)
  have agg: "concat (map strip ?ts) = ?agg"
    by (simp add: strip_def lstrip_def rstrip_def isspace_def ascii_def)
  have nonempty: "concat (map strip ?ts) \<noteq> []"
    unfolding agg by (simp add: ascii_def)
  have noquote: \<open>\<not> endswith (concat (map strip ?ts)) (ascii ''"'')\<close>
    unfolding agg by (simp add: endswith_def ascii_def)
  have nosuffix: \<open>\<not> endswith (concat (map strip ?ts)) (ascii ''", "error_code": 0}'')\<close>
    unfolding agg by (simp add: endswith_def ascii_def)
  have "rfind ?agg (ascii ''[/INST]'') = int 9"
    by (simp add: rfind_def startswith_def ascii_def)
  from rfind_sound [OF this]
  have last: "occurs_at (ascii ''[/INST]'') ?agg 9 \<and> (\<forall>j>9. \<not> occurs_at (ascii ''[/INST]'') ?agg j)" .
  from generate_keeps_text_after_last_marker [OF dispatch frags nonempty noquote nosuffix] last
  have "generate ?env () (ascii ''q'') = Inr (strip (drop (9 + 7) ?agg))"
    unfolding agg by blast
  moreover have "strip (drop (9 + 7) ?agg) = ascii ''Nofracture''"
    by (simp add: strip_def lstrip_def rstrip_def isspace_def ascii_def)
  ultimately have first: "generate ?env () (ascii ''q'') = Inr (ascii ''Nofracture'')"
    by simp
  let ?tbl' = \<open>[(ascii ''{"error_code": 0, "text": " Normal. "}'',
          JObj [(ascii ''error_code'', JInt 0), (ascii ''text'', JStr (ascii '' Normal. ''))])]\<close>
  let ?ls' = \<open>[ascii ''{"error_code": 0, "text": " Normal. "}'']\<close>
  let ?ts' = "[ascii '' Normal. '']"
  let ?agg' = "ascii ''Normal.''"
  let ?env' = "scripted_env controller_ok (Inr (reply 200 (Inl JSONDecodeError) ?ls' []))
                (Inl RequestError) ?tbl' (Inr [])"
  have dispatch': "generate_dispatch ?env' () (ascii ''q'') = Inr (reply 200 (Inl JSONDecodeError) ?ls' [])"
    by (rule generate_dispatch_scripted)
  have "list_all2 (success_fragment (table_loads ?tbl')) ?ls' ?ts'"
    by (simp add: success_fragment_def table_loads_def ascii_def)
  then have frags': "list_all2 (success_fragment (loads ?env'))
                      (aiter_lines (reply 200 (Inl JSONDecodeError) ?ls' [])) ?ts'"
    by (simp only: loads_scripted_env aiter_lines_reply)
  have agg': "concat (map strip ?ts') = ?agg'"
    by (simp add: strip_def lstrip_def rstrip_def isspace_def ascii_def)
  have nonempty': "concat (map strip ?ts') \<noteq> []"
    unfolding agg' by (simp add: ascii_def)
  have noquote': \<open>\<not> endswith (concat (map strip ?ts')) (ascii ''"'')\<close>
    unfolding agg' by (simp add: endswith_def ascii_def)
  have nosuffix': \<open>\<not> endswith (concat (map strip ?ts')) (ascii ''", "error_code": 0}'')\<close>
    unfolding agg' by (simp add: endswith_def ascii_def)
  have "rfind ?agg' (ascii ''[/INST]'') = - 1"
    by (simp add: rfind_def startswith_def ascii_def)
  then have absent: "\<forall>j. \<not> occurs_at (ascii ''[/INST]'') ?agg' j"
    by (simp add: rfind_absent)
  from generate_keeps_text_after_last_marker [OF dispatch' frags' nonempty' noquote' nosuffix'] absent
  have "generate ?env' () (ascii ''q'') = Inr (strip ?agg')"
    unfolding agg' by blast
  moreover have "strip ?agg' = ascii ''Normal.''"
    by (simp add: strip_def lstrip_def rstrip_def isspace_def ascii_def)
  ultimately have second: "generate ?env' () (ascii ''q'') = Inr (ascii ''Normal.'')"
    by simp
  from frags0 last first second show ?thesis
    by simp
qed

section \<open>A response without usable text\<close>

text \<open>
  Claim C2, as stated, fails for \<open>generate\<close> of \<open>llava_med_api.py\<close>. The worker's only
  fragment has the status code \<open>1\<close> and the text \<open>"boom"\<close>, so the stream holds no usable
  text. \<open>generate\<close> of \<open>main.py\<close> fails with status 500; \<open>generate\<close> of
  \<open>llava_med_api.py\<close>, which does not read the status code, returns the translation of
  that text as a success.
\<close>

theorem failing_fragment_is_returned_counterexample:
  \<open>(\<forall>t. \<not> usable_line (table_loads [(ascii ''{"error_code": 1, "text": "boom"}'',
          JObj [(ascii ''error_code'', JInt 1), (ascii ''text'', JStr (ascii ''boom''))])]) (ascii ''{"error_code": 1, "text": "boom"}'') t) \<and>
   generate ((scripted_env controller_ok
        (Inr (reply 200 (Inl JSONDecodeError) [ascii ''{"error_code": 1, "text": "boom"}''] [ascii ''{"error_code": 1, "text": "boom"}'']))
        (Inl RequestError)
        [(ascii ''{"error_code": 1, "text": "boom"}'',
          JObj [(ascii ''error_code'', JInt 1), (ascii ''text'', JStr (ascii ''boom''))])]
        (Inr []))\<lparr>client_translate := marked_translation\<rparr>) () (ascii ''q'') = Inl (HTTPException 500 (Unexpected (HTTPException 500 (Msg ''Worker returned empty response'')))) \<and>
   llava_generate ((scripted_env controller_ok
        (Inr (reply 200 (Inl JSONDecodeError) [ascii ''{"error_code": 1, "text": "boom"}''] [ascii ''{"error_code": 1, "text": "boom"}'']))
        (Inl RequestError)
        [(ascii ''{"error_code": 1, "text": "boom"}'',
          JObj [(ascii ''error_code'', JInt 1), (ascii ''text'', JStr (ascii ''boom''))])]
        (Inr []))\<lparr>client_translate := marked_translation\<rparr>) () (ascii ''q'') = Inr (Some (ascii ''[id] boom''))\<close>
proof -
  have unusable: \<open>\<forall>t. \<not> usable_line (table_loads [(ascii ''{"error_code": 1, "text": "boom"}'',
          JObj [(ascii ''error_code'', JInt 1), (ascii ''text'', JStr (ascii ''boom''))])]) (ascii ''{"error_code": 1, "text": "boom"}'') t\<close>
    by (simp add: usable_line_def success_fragment_def table_loads_def ascii_def)
  have lines: \<open>read_lines (table_loads [(ascii ''{"error_code": 1, "text": "boom"}'',
          JObj [(ascii ''error_code'', JInt 1), (ascii ''text'', JStr (ascii ''boom''))])]) [ascii ''{"error_code": 1, "text": "boom"}''] [] = []\<close>
    by (simp add: process_line_def line_text_def bindE_def table_loads_def ascii_def)
  have first: \<open>generate ((scripted_env controller_ok
        (Inr (reply 200 (Inl JSONDecodeError) [ascii ''{"error_code": 1, "text": "boom"}''] [ascii ''{"error_code": 1, "text": "boom"}'']))
        (Inl RequestError)
        [(ascii ''{"error_code": 1, "text": "boom"}'',
          JObj [(ascii ''error_code'', JInt 1), (ascii ''text'', JStr (ascii ''boom''))])]
        (Inr []))\<lparr>client_translate := marked_translation\<rparr>) () (ascii ''q'') = Inl (HTTPException 500 (Unexpected (HTTPException 500 (Msg ''Worker returned empty response''))))\<close>
    using lines
    by (simp add: generate_def generate_dispatch_client_translate generate_dispatch_scripted
        bindE_def generate_aggregate_def aiter_lines_reply loads_scripted_env endpoint_except_def)
  have extracted: \<open>last_chunk_text (table_loads [(ascii ''{"error_code": 1, "text": "boom"}'',
          JObj [(ascii ''error_code'', JInt 1), (ascii ''text'', JStr (ascii ''boom''))])]) ascii_decode (ascii ''q'')
      (reply 200 (Inl JSONDecodeError) [ascii ''{"error_code": 1, "text": "boom"}''] [ascii ''{"error_code": 1, "text": "boom"}'']) = Inr (ascii ''boom'')\<close>
    by (simp add: last_chunk_text_def aiter_bytes_def content_reply decode_utf8_def
        ascii_decode_def bindE_def table_loads_def startswith_def strip_def lstrip_def rstrip_def
        isspace_def ascii_def)
  have second: \<open>llava_generate ((scripted_env controller_ok
        (Inr (reply 200 (Inl JSONDecodeError) [ascii ''{"error_code": 1, "text": "boom"}''] [ascii ''{"error_code": 1, "text": "boom"}'']))
        (Inl RequestError)
        [(ascii ''{"error_code": 1, "text": "boom"}'',
          JObj [(ascii ''error_code'', JInt 1), (ascii ''text'', JStr (ascii ''boom''))])]
        (Inr []))\<lparr>client_translate := marked_translation\<rparr>) () (ascii ''q'') = Inr (Some (ascii ''[id] boom''))\<close>
    using extracted
    by (simp add: llava_generate_def generate_dispatch_client_translate generate_dispatch_scripted
        loads_scripted_env utf8_decode_scripted bindE_def translate_text_def
        marked_translation_def endpoint_except_def)
      (simp add: ascii_def)
  from unusable first second show ?thesis
    by simp
qed

text \<open>
  Claim C2, amended. When the worker's stream holds no usable text, \<open>generate\<close> and
  \<open>chat\<close> of \<open>main.py\<close> raise the \<open>HTTPException\<close> with status 500 and the detail
  \<open>Worker returned empty response\<close>, which the last handler of the endpoint wraps into an
  \<open>HTTPException\<close> with status 500. \<open>generate\<close> of \<open>llava_med_api.py\<close> neither reads the
  status code nor strips the text before it tests it. It fails with status 500 and the
  detail \<open>Worker returned empty response\<close> when the body is empty, and with status 500
  and the detail \<open>No valid text found in worker response\<close> when the scan of the pieces
  from the end passes over every piece or stops at an object whose text field is empty.
  It fails with status 500 too when the body is not UTF-8, when the scan stops at a text
  field that is not a string, and when it stops at a piece that breaks the scan with an
  exception other than an \<open>httpx\<close> request error. When the scan stops at a text field
  that is a string and not empty, whatever the status code of the fragment and also when
  the text is whitespace only, the request goes on to the translation of the cleaned
  text.
\<close>

theorem no_usable_text_is_an_error:
  "(generate_dispatch env upload prompt = Inr response \<and>
    (\<forall>line\<in>set (aiter_lines response). \<forall>t. \<not> usable_line (loads env) line t) \<longrightarrow>
      generate env upload prompt =
        Inl (HTTPException 500
               (Unexpected (HTTPException 500 (Msg ''Worker returned empty response''))))) \<and>
   (chat_dispatch env messages images = Inr response \<and>
    (\<forall>line\<in>set (aiter_lines response). \<forall>t. \<not> usable_line (loads env) line t) \<longrightarrow>
      chat env messages images =
        Inl (HTTPException 500
               (Unexpected (HTTPException 500 (Msg ''Worker returned empty response''))))) \<and>
   (generate_dispatch env upload prompt = Inr response \<and> content response = [] \<longrightarrow>
      llava_generate env upload prompt =
        Inl (HTTPException 500
               (Unexpected (HTTPException 500 (Msg ''Worker returned empty response''))))) \<and>
   (generate_dispatch env upload prompt = Inr response \<and> content response \<noteq> [] \<and>
    utf8_decode env (content response) = None \<longrightarrow>
      llava_generate env upload prompt = Inl (HTTPException 500 (Unexpected UnicodeDecodeError))) \<and>
   (generate_dispatch env upload prompt = Inr response \<and> content response \<noteq> [] \<and>
    utf8_decode env (content response) = Some chunk_str \<and>
    (\<forall>piece\<in>set (split chunk_str 0). passed_over (loads env) piece) \<longrightarrow>
      llava_generate env upload prompt =
        Inl (HTTPException 500
               (Unexpected (HTTPException 500 (Msg ''No valid text found in worker response''))))) \<and>
   (generate_dispatch env upload prompt = Inr response \<and> content response \<noteq> [] \<and>
    utf8_decode env (content response) = Some chunk_str \<and>
    split chunk_str 0 = before @ piece # after \<and>
    (\<forall>q\<in>set after. passed_over (loads env) q) \<longrightarrow>
      (\<forall>v. text_piece (loads env) piece v \<and> \<not> truthy v \<longrightarrow>
         llava_generate env upload prompt =
           Inl (HTTPException 500
                  (Unexpected (HTTPException 500 (Msg ''No valid text found in worker response''))))) \<and>
      (\<forall>v. text_piece (loads env) piece v \<and> truthy v \<and> (\<forall>t. v \<noteq> JStr t) \<longrightarrow>
         llava_generate env upload prompt = Inl (HTTPException 500 (Unexpected AttributeError))) \<and>
      (\<forall>e. breaking (loads env) piece e \<and> \<not> is_RequestError e \<longrightarrow>
         llava_generate env upload prompt = Inl (HTTPException 500 (Unexpected e))) \<and>
      (\<forall>t. text_piece (loads env) piece (JStr t) \<and> t \<noteq> [] \<longrightarrow>
         llava_generate env upload prompt =
           endpoint_except
             (translate_text env
                (strip (replace t
                          (ascii ''[INST] <image>'' @ [0x0A] @ prompt @ ascii '' [/INST]'') [])))))"
proof (intro conjI impI allI)
  assume "generate_dispatch env upload prompt = Inr response \<and>
    (\<forall>line\<in>set (aiter_lines response). \<forall>t. \<not> usable_line (loads env) line t)"
  then show "generate env upload prompt =
        Inl (HTTPException 500
               (Unexpected (HTTPException 500 (Msg ''Worker returned empty response''))))"
    using read_lines_unusable [of "aiter_lines response" "loads env"]
    by (simp add: generate_def bindE_def generate_aggregate_def endpoint_except_def)
next
  assume "chat_dispatch env messages images = Inr response \<and>
    (\<forall>line\<in>set (aiter_lines response). \<forall>t. \<not> usable_line (loads env) line t)"
  then show "chat env messages images =
        Inl (HTTPException 500
               (Unexpected (HTTPException 500 (Msg ''Worker returned empty response''))))"
    using read_lines_unusable [of "aiter_lines response" "loads env"]
    by (simp add: chat_def bindE_def chat_aggregate_def endpoint_except_def)
next
  assume "generate_dispatch env upload prompt = Inr response \<and> content response = []"
  then show "llava_generate env upload prompt =
        Inl (HTTPException 500
               (Unexpected (HTTPException 500 (Msg ''Worker returned empty response''))))"
    by (simp add: llava_generate_def last_chunk_text_def aiter_bytes_def bindE_def
        endpoint_except_def)
next
  assume "generate_dispatch env upload prompt = Inr response \<and> content response \<noteq> [] \<and>
    utf8_decode env (content response) = None"
  then show "llava_generate env upload prompt = Inl (HTTPException 500 (Unexpected UnicodeDecodeError))"
    by (simp add: llava_generate_def last_chunk_text_def aiter_bytes_def decode_utf8_def bindE_def
        endpoint_except_def)
next
  assume a: "generate_dispatch env upload prompt = Inr response \<and> content response \<noteq> [] \<and>
    utf8_decode env (content response) = Some chunk_str \<and>
    (\<forall>piece\<in>set (split chunk_str 0). passed_over (loads env) piece)"
  then have "find_text (loads env) (rev (split chunk_str 0)) = Inr (JStr [])"
    by (simp add: find_text_all_passed_over)
  with a llava_generate_scan [of env upload prompt response chunk_str]
  show "llava_generate env upload prompt =
        Inl (HTTPException 500
               (Unexpected (HTTPException 500 (Msg ''No valid text found in worker response''))))"
    by (simp add: bindE_def endpoint_except_def)
next
  fix v
  assume a: "generate_dispatch env upload prompt = Inr response \<and> content response \<noteq> [] \<and>
    utf8_decode env (content response) = Some chunk_str \<and>
    split chunk_str 0 = before @ piece # after \<and>
    (\<forall>q\<in>set after. passed_over (loads env) q)"
    and v: "text_piece (loads env) piece v \<and> \<not> truthy v"
  from a v have "find_text (loads env) (rev (split chunk_str 0)) = Inr v"
    by (simp add: find_text_decisive find_text_text_piece del: find_text.simps)
  with a v llava_generate_scan [of env upload prompt response chunk_str]
  show "llava_generate env upload prompt =
        Inl (HTTPException 500
               (Unexpected (HTTPException 500 (Msg ''No valid text found in worker response''))))"
    by (simp add: bindE_def endpoint_except_def)
next
  fix v
  assume a: "generate_dispatch env upload prompt = Inr response \<and> content response \<noteq> [] \<and>
    utf8_decode env (content response) = Some chunk_str \<and>
    split chunk_str 0 = before @ piece # after \<and>
    (\<forall>q\<in>set after. passed_over (loads env) q)"
    and v: "text_piece (loads env) piece v \<and> truthy v \<and> (\<forall>t. v \<noteq> JStr t)"
  from a v have "find_text (loads env) (rev (split chunk_str 0)) = Inr v"
    by (simp add: find_text_decisive find_text_text_piece del: find_text.simps)
  with a v llava_generate_scan [of env upload prompt response chunk_str]
  show "llava_generate env upload prompt = Inl (HTTPException 500 (Unexpected AttributeError))"
    by (simp add: bindE_def endpoint_except_def replace_method_not_str)
next
  fix e
  assume a: "generate_dispatch env upload prompt = Inr response \<and> content response \<noteq> [] \<and>
    utf8_decode env (content response) = Some chunk_str \<and>
    split chunk_str 0 = before @ piece # after \<and>
    (\<forall>q\<in>set after. passed_over (loads env) q)"
    and e: "breaking (loads env) piece e \<and> \<not> is_RequestError e"
  from a e have "find_text (loads env) (rev (split chunk_str 0)) = Inl e"
    by (simp add: find_text_decisive find_text_breaking del: find_text.simps)
  with a e llava_generate_scan [of env upload prompt response chunk_str]
  show "llava_generate env upload prompt = Inl (HTTPException 500 (Unexpected e))"
    by (simp add: bindE_def endpoint_except_other)
next
  fix t
  assume a: "generate_dispatch env upload prompt = Inr response \<and> content response \<noteq> [] \<and>
    utf8_decode env (content response) = Some chunk_str \<and>
    split chunk_str 0 = before @ piece # after \<and>
    (\<forall>q\<in>set after. passed_over (loads env) q)"
    and t: "text_piece (loads env) piece (JStr t) \<and> t \<noteq> []"
  from a t have "find_text (loads env) (rev (split chunk_str 0)) = Inr (JStr t)"
    by (simp add: find_text_decisive find_text_text_piece del: find_text.simps)
  with a t llava_generate_scan [of env upload prompt response chunk_str]
  show "llava_generate env upload prompt =
           endpoint_except
             (translate_text env
                (strip (replace t
                          (ascii ''[INST] <image>'' @ [0x0A] @ prompt @ ascii '' [/INST]'') [])))"
    by (simp add: bindE_def)
qed

text \<open>
  The empty stream, a failing fragment as the only line, and then bodies that are not
  UTF-8, hold an object without a text field, an object with an empty text, an object
  whose text is a number, a number, and a success fragment whose text is one blank.
\<close>

theorem no_usable_text_is_an_error_witness:
  \<open>generate (scripted_env controller_ok
        (Inr (reply 200 (Inl JSONDecodeError) [] []))
        (Inl RequestError)
        [(ascii ''{"error_code": 1, "text": "boom"}'',
          JObj [(ascii ''error_code'', JInt 1), (ascii ''text'', JStr (ascii ''boom''))]),
         (ascii ''{"error_code": 0}'', JObj [(ascii ''error_code'', JInt 0)]),
         (ascii ''{"text": ""}'', JObj [(ascii ''text'', JStr [])]),
         (ascii ''{"text": 5}'', JObj [(ascii ''text'', JInt 5)]),
         (ascii ''7'', JInt 7),
         (ascii ''{"error_code": 0, "text": " "}'',
          JObj [(ascii ''error_code'', JInt 0), (ascii ''text'', JStr (ascii '' ''))])]
        (Inr [])) () (ascii ''q'') = Inl (HTTPException 500 (Unexpected (HTTPException 500 (Msg ''Worker returned empty response'')))) \<and>
   chat (scripted_env controller_ok
        (Inr (reply 200 (Inl JSONDecodeError) [] []))
        (Inl RequestError)
        [(ascii ''{"error_code": 1, "text": "boom"}'',
          JObj [(ascii ''error_code'', JInt 1), (ascii ''text'', JStr (ascii ''boom''))]),
         (ascii ''{"error_code": 0}'', JObj [(ascii ''error_code'', JInt 0)]),
         (ascii ''{"text": ""}'', JObj [(ascii ''text'', JStr [])]),
         (ascii ''{"text": 5}'', JObj [(ascii ''text'', JInt 5)]),
         (ascii ''7'', JInt 7),
         (ascii ''{"error_code": 0, "text": " "}'',
          JObj [(ascii ''error_code'', JInt 0), (ascii ''text'', JStr (ascii '' ''))])]
        (Inr [])) [] [] = Inl (HTTPException 500 (Unexpected (HTTPException 500 (Msg ''Worker returned empty response'')))) \<and>
   llava_generate (scripted_env controller_ok
        (Inr (reply 200 (Inl JSONDecodeError) [] []))
        (Inl RequestError)
        [(ascii ''{"error_code": 1, "text": "boom"}'',
          JObj [(ascii ''error_code'', JInt 1), (ascii ''text'', JStr (ascii ''boom''))]),
         (ascii ''{"error_code": 0}'', JObj [(ascii ''error_code'', JInt 0)]),
         (ascii ''{"text": ""}'', JObj [(ascii ''text'', JStr [])]),
         (ascii ''{"text": 5}'', JObj [(ascii ''text'', JInt 5)]),
         (ascii ''7'', JInt 7),
         (ascii ''{"error_code": 0, "text": " "}'',
          JObj [(ascii ''error_code'', JInt 0), (ascii ''text'', JStr (ascii '' ''))])]
        (Inr [])) () (ascii ''q'') = Inl (HTTPException 500 (Unexpected (HTTPException 500 (Msg ''Worker returned empty response'')))) \<and>
   (\<forall>t. \<not> usable_line (table_loads [(ascii ''{"error_code": 1, "text": "boom"}'',
          JObj [(ascii ''error_code'', JInt 1), (ascii ''text'', JStr (ascii ''boom''))]),
         (ascii ''{"error_code": 0}'', JObj [(ascii ''error_code'', JInt 0)]),
         (ascii ''{"text": ""}'', JObj [(ascii ''text'', JStr [])]),
         (ascii ''{"text": 5}'', JObj [(ascii ''text'', JInt 5)]),
         (ascii ''7'', JInt 7),
         (ascii ''{"error_code": 0, "text": " "}'',
          JObj [(ascii ''error_code'', JInt 0), (ascii ''text'', JStr (ascii '' ''))])]) (ascii ''{"error_code": 1, "text": "boom"}'') t) \<and>
   generate (scripted_env controller_ok
        (Inr (reply 200 (Inl JSONDecodeError) [(ascii ''{"error_code": 1, "text": "boom"}'')] [(ascii ''{"error_code": 1, "text": "boom"}'')]))
        (Inl RequestError)
        [(ascii ''{"error_code": 1, "text": "boom"}'',
          JObj [(ascii ''error_code'', JInt 1), (ascii ''text'', JStr (ascii ''boom''))]),
         (ascii ''{"error_code": 0}'', JObj [(ascii ''error_code'', JInt 0)]),
         (ascii ''{"text": ""}'', JObj [(ascii ''text'', JStr [])]),
         (ascii ''{"text": 5}'', JObj [(ascii ''text'', JInt 5)]),
         (ascii ''7'', JInt 7),
         (ascii ''{"error_code": 0, "text": " "}'',
          JObj [(ascii ''error_code'', JInt 0), (ascii ''text'', JStr (ascii '' ''))])]
        (Inr [])) () (ascii ''q'') = Inl (HTTPException 500 (Unexpected (HTTPException 500 (Msg ''Worker returned empty response'')))) \<and>
   chat (scripted_env controller_ok
        (Inr (reply 200 (Inl JSONDecodeError) [(ascii ''{"error_code": 1, "text": "boom"}'')] [(ascii ''{"error_code": 1, "text": "boom"}'')]))
        (Inl RequestError)
        [(ascii ''{"error_code": 1, "text": "boom"}'',
          JObj [(ascii ''error_code'', JInt 1), (ascii ''text'', JStr (ascii ''boom''))]),
         (ascii ''{"error_code": 0}'', JObj [(ascii ''error_code'', JInt 0)]),
         (ascii ''{"text": ""}'', JObj [(ascii ''text'', JStr [])]),
         (ascii ''{"text": 5}'', JObj [(ascii ''text'', JInt 5)]),
         (ascii ''7'', JInt 7),
         (ascii ''{"error_code": 0, "text": " "}'',
          JObj [(ascii ''error_code'', JInt 0), (ascii ''text'', JStr (ascii '' ''))])]
        (Inr [])) [] [] = Inl (HTTPException 500 (Unexpected (HTTPException 500 (Msg ''Worker returned empty response'')))) \<and>
   llava_generate (scripted_env controller_ok
        (Inr (reply 200 (Inl JSONDecodeError) [] [[255]]))
        (Inl RequestError)
        [(ascii ''{"error_code": 1, "text": "boom"}'',
          JObj [(ascii ''error_code'', JInt 1), (ascii ''text'', JStr (ascii ''boom''))]),
         (ascii ''{"error_code": 0}'', JObj [(ascii ''error_code'', JInt 0)]),
         (ascii ''{"text": ""}'', JObj [(ascii ''text'', JStr [])]),
         (ascii ''{"text": 5}'', JObj [(ascii ''text'', JInt 5)]),
         (ascii ''7'', JInt 7),
         (ascii ''{"error_code": 0, "text": " "}'',
          JObj [(ascii ''error_code'', JInt 0), (ascii ''text'', JStr (ascii '' ''))])]
        (Inr [])) () (ascii ''q'') = Inl (HTTPException 500 (Unexpected UnicodeDecodeError)) \<and>
   llava_generate (scripted_env controller_ok
        (Inr (reply 200 (Inl JSONDecodeError) [] [ascii ''{"error_code": 0}'' @ [0]]))
        (Inl RequestError)
        [(ascii ''{"error_code": 1, "text": "boom"}'',
          JObj [(ascii ''error_code'', JInt 1), (ascii ''text'', JStr (ascii ''boom''))]),
         (ascii ''{"error_code": 0}'', JObj [(ascii ''error_code'', JInt 0)]),
         (ascii ''{"text": ""}'', JObj [(ascii ''text'', JStr [])]),
         (ascii ''{"text": 5}'', JObj [(ascii ''text'', JInt 5)]),
         (ascii ''7'', JInt 7),
         (ascii ''{"error_code": 0, "text": " "}'',
          JObj [(ascii ''error_code'', JInt 0), (ascii ''text'', JStr (ascii '' ''))])]
        (Inr [])) () (ascii ''q'') = Inl (HTTPException 500 (Unexpected (HTTPException 500 (Msg ''No valid text found in worker response'')))) \<and>
   llava_generate (scripted_env controller_ok
        (Inr (reply 200 (Inl JSONDecodeError) [] [ascii ''{"text": ""}'']))
        (Inl RequestError)
        [(ascii ''{"error_code": 1, "text": "boom"}'',
          JObj [(ascii ''error_code'', JInt 1), (ascii ''text'', JStr (ascii ''boom''))]),
         (ascii ''{"error_code": 0}'', JObj [(ascii ''error_code'', JInt 0)]),
         (ascii ''{"text": ""}'', JObj [(ascii ''text'', JStr [])]),
         (ascii ''{"text": 5}'', JObj [(ascii ''text'', JInt 5)]),
         (ascii ''7'', JInt 7),
         (ascii ''{"error_code": 0, "text": " "}'',
          JObj [(ascii ''error_code'', JInt 0), (ascii ''text'', JStr (ascii '' ''))])]
        (Inr [])) () (ascii ''q'') = Inl (HTTPException 500 (Unexpected (HTTPException 500 (Msg ''No valid text found in worker response'')))) \<and>
   llava_generate (scripted_env controller_ok
        (Inr (reply 200 (Inl JSONDecodeError) [] [ascii ''{"text": 5}'']))
        (Inl RequestError)
        [(ascii ''{"error_code": 1, "text": "boom"}'',
          JObj [(ascii ''error_code'', JInt 1), (ascii ''text'', JStr (ascii ''boom''))]),
         (ascii ''{"error_code": 0}'', JObj [(ascii ''error_code'', JInt 0)]),
         (ascii ''{"text": ""}'', JObj [(ascii ''text'', JStr [])]),
         (ascii ''{"text": 5}'', JObj [(ascii ''text'', JInt 5)]),
         (ascii ''7'', JInt 7),
         (ascii ''{"error_code": 0, "text": " "}'',
          JObj [(ascii ''error_code'', JInt 0), (ascii ''text'', JStr (ascii '' ''))])]
        (Inr [])) () (ascii ''q'') = Inl (HTTPException 500 (Unexpected AttributeError)) \<and>
   llava_generate (scripted_env controller_ok
        (Inr (reply 200 (Inl JSONDecodeError) [] [ascii ''7'']))
        (Inl RequestError)
        [(ascii ''{"error_code": 1, "text": "boom"}'',
          JObj [(ascii ''error_code'', JInt 1), (ascii ''text'', JStr (ascii ''boom''))]),
         (ascii ''{"error_code": 0}'', JObj [(ascii ''error_code'', JInt 0)]),
         (ascii ''{"text": ""}'', JObj [(ascii ''text'', JStr [])]),
         (ascii ''{"text": 5}'', JObj [(ascii ''text'', JInt 5)]),
         (ascii ''7'', JInt 7),
         (ascii ''{"error_code": 0, "text": " "}'',
          JObj [(ascii ''error_code'', JInt 0), (ascii ''text'', JStr (ascii '' ''))])]
        (Inr [])) () (ascii ''q'') = Inl (HTTPException 500 (Unexpected TypeError)) \<and>
   llava_generate ((scripted_env controller_ok
        (Inr (reply 200 (Inl JSONDecodeError) [] [ascii ''{"error_code": 0, "text": " "}'']))
        (Inl RequestError)
        [(ascii ''{"error_code": 1, "text": "boom"}'',
          JObj [(ascii ''error_code'', JInt 1), (ascii ''text'', JStr (ascii ''boom''))]),
         (ascii ''{"error_code": 0}'', JObj [(ascii ''error_code'', JInt 0)]),
         (ascii ''{"text": ""}'', JObj [(ascii ''text'', JStr [])]),
         (ascii ''{"text": 5}'', JObj [(ascii ''text'', JInt 5)]),
         (ascii ''7'', JInt 7),
         (ascii ''{"error_code": 0, "text": " "}'',
          JObj [(ascii ''error_code'', JInt 0), (ascii ''text'', JStr (ascii '' ''))])]
        (Inr []))\<lparr>client_translate := marked_translation\<rparr>) () (ascii ''q'') = Inr (Some (ascii ''[id] ''))\<close>
proof -
  let ?tbl = \<open>[(ascii ''{"error_code": 1, "text": "boom"}'',
          JObj [(ascii ''error_code'', JInt 1), (ascii ''text'', JStr (ascii ''boom''))]),
         (ascii ''{"error_code": 0}'', JObj [(ascii ''error_code'', JInt 0)]),
         (ascii ''{"text": ""}'', JObj [(ascii ''text'', JStr [])]),
         (ascii ''{"text": 5}'', JObj [(ascii ''text'', JInt 5)]),
         (ascii ''7'', JInt 7),
         (ascii ''{"error_code": 0, "text": " "}'',
          JObj [(ascii ''error_code'', JInt 0), (ascii ''text'', JStr (ascii '' ''))])]\<close>
  let ?line = \<open>(ascii ''{"error_code": 1, "text": "boom"}'')\<close>
  let ?rZ = "reply 200 (Inl JSONDecodeError) [] []"
  let ?rA = "reply 200 (Inl JSONDecodeError) [?line] [?line]"
  let ?rF = "reply 200 (Inl JSONDecodeError) [] [[255]]"
  let ?cB = \<open>ascii ''{"error_code": 0}'' @ [0]\<close>
  let ?rB = "reply 200 (Inl JSONDecodeError) [] [?cB]"
  let ?cC = \<open>ascii ''{"text": ""}''\<close>
  let ?rC = "reply 200 (Inl JSONDecodeError) [] [?cC]"
  let ?cD = \<open>ascii ''{"text": 5}''\<close>
  let ?rD = "reply 200 (Inl JSONDecodeError) [] [?cD]"
  let ?cE = "ascii ''7''"
  let ?rE = "reply 200 (Inl JSONDecodeError) [] [?cE]"
  let ?cG = \<open>ascii ''{"error_code": 0, "text": " "}''\<close>
  let ?rG = "reply 200 (Inl JSONDecodeError) [] [?cG]"
  let ?eZ = "scripted_env controller_ok (Inr ?rZ) (Inl RequestError) ?tbl (Inr [])"
  let ?eA = "scripted_env controller_ok (Inr ?rA) (Inl RequestError) ?tbl (Inr [])"
  let ?eF = "scripted_env controller_ok (Inr ?rF) (Inl RequestError) ?tbl (Inr [])"
  let ?eB = "scripted_env controller_ok (Inr ?rB) (Inl RequestError) ?tbl (Inr [])"
  let ?eC = "scripted_env controller_ok (Inr ?rC) (Inl RequestError) ?tbl (Inr [])"
  let ?eD = "scripted_env controller_ok (Inr ?rD) (Inl RequestError) ?tbl (Inr [])"
  let ?eE = "scripted_env controller_ok (Inr ?rE) (Inl RequestError) ?tbl (Inr [])"
  let ?eG = "(scripted_env controller_ok (Inr ?rG) (Inl RequestError) ?tbl (Inr []))
               \<lparr>client_translate := marked_translation\<rparr>"
  \<comment> \<open>the empty stream\<close>
  have unusableZ: "\<forall>line\<in>set (aiter_lines ?rZ). \<forall>t. \<not> usable_line (loads ?eZ) line t"
    by (simp add: aiter_lines_reply)
  have dZ: "generate_dispatch ?eZ () (ascii ''q'') = Inr ?rZ"
    by (rule generate_dispatch_scripted)
  have dZ': "chat_dispatch ?eZ [] [] = Inr ?rZ"
    by (rule chat_dispatch_scripted)
  have emptyZ: "content ?rZ = []"
    by (simp only: content_reply concat.simps)
  have Z1: "generate ?eZ () (ascii ''q'') = Inl (HTTPException 500 (Unexpected (HTTPException 500 (Msg ''Worker returned empty response''))))"
    by (rule no_usable_text_is_an_error [where response = ?rZ, THEN conjunct1, THEN mp])
      (intro conjI dZ unusableZ)
  have Z2: "chat ?eZ [] [] = Inl (HTTPException 500 (Unexpected (HTTPException 500 (Msg ''Worker returned empty response''))))"
    by (rule no_usable_text_is_an_error [where response = ?rZ, THEN conjunct2, THEN conjunct1, THEN mp])
      (intro conjI dZ' unusableZ)
  have Z3: "llava_generate ?eZ () (ascii ''q'') = Inl (HTTPException 500 (Unexpected (HTTPException 500 (Msg ''Worker returned empty response''))))"
    by (rule no_usable_text_is_an_error [where response = ?rZ, THEN conjunct2, THEN conjunct2,
          THEN conjunct1, THEN mp])
      (intro conjI dZ emptyZ)
  \<comment> \<open>a failing fragment as the only line\<close>
  have unusable: "\<forall>t. \<not> usable_line (table_loads ?tbl) ?line t"
    by (simp add: usable_line_def success_fragment_def table_loads_def ascii_def)
  then have unusableA: "\<forall>line\<in>set (aiter_lines ?rA). \<forall>t. \<not> usable_line (loads ?eA) line t"
    by (simp add: loads_scripted_env aiter_lines_reply)
  have dA: "generate_dispatch ?eA () (ascii ''q'') = Inr ?rA"
    by (rule generate_dispatch_scripted)
  have dA': "chat_dispatch ?eA [] [] = Inr ?rA"
    by (rule chat_dispatch_scripted)
  have A1: "generate ?eA () (ascii ''q'') = Inl (HTTPException 500 (Unexpected (HTTPException 500 (Msg ''Worker returned empty response''))))"
    by (rule no_usable_text_is_an_error [where response = ?rA, THEN conjunct1, THEN mp])
      (intro conjI dA unusableA)
  have A2: "chat ?eA [] [] = Inl (HTTPException 500 (Unexpected (HTTPException 500 (Msg ''Worker returned empty response''))))"
    by (rule no_usable_text_is_an_error [where response = ?rA, THEN conjunct2, THEN conjunct1, THEN mp])
      (intro conjI dA' unusableA)
  \<comment> \<open>a body that is not UTF-8\<close>
  have dF: "generate_dispatch ?eF () (ascii ''q'') = Inr ?rF"
    by (rule generate_dispatch_scripted)
  have contentF: "content ?rF \<noteq> []" "utf8_decode ?eF (content ?rF) = None"
    by (simp_all add: content_reply utf8_decode_scripted ascii_decode_def)
  have F: "llava_generate ?eF () (ascii ''q'') = Inl (HTTPException 500 (Unexpected UnicodeDecodeError))"
    by (rule no_usable_text_is_an_error [where response = ?rF, THEN conjunct2, THEN conjunct2,
          THEN conjunct2, THEN conjunct1, THEN mp])
      (intro conjI dF contentF)
  \<comment> \<open>an object without a text field, followed by a NUL\<close>
  have dB: "generate_dispatch ?eB () (ascii ''q'') = Inr ?rB"
    by (rule generate_dispatch_scripted)
  have contentB: "content ?rB \<noteq> []" "utf8_decode ?eB (content ?rB) = Some ?cB"
    by (simp_all add: content_reply utf8_decode_scripted ascii_decode_def ascii_def)
  have piecesB: \<open>split ?cB 0 = [ascii ''{"error_code": 0}'', []]\<close>
    by (simp add: ascii_def)
  have passedB: "\<forall>piece\<in>set (split ?cB 0). passed_over (loads ?eB) piece"
    unfolding piecesB
    by (simp add: passed_over_def loads_scripted_env table_loads_def strip_def lstrip_def
        rstrip_def ascii_def)
  have B: "llava_generate ?eB () (ascii ''q'') = Inl (HTTPException 500 (Unexpected (HTTPException 500 (Msg ''No valid text found in worker response''))))"
    by (rule no_usable_text_is_an_error [where response = ?rB and chunk_str = ?cB,
          THEN conjunct2, THEN conjunct2, THEN conjunct2, THEN conjunct2, THEN conjunct1, THEN mp])
      (intro conjI dB contentB passedB)
  \<comment> \<open>an object with an empty text\<close>
  have dC: "generate_dispatch ?eC () (ascii ''q'') = Inr ?rC"
    by (rule generate_dispatch_scripted)
  have contentC: "content ?rC \<noteq> []" "utf8_decode ?eC (content ?rC) = Some ?cC"
    by (simp_all add: content_reply utf8_decode_scripted ascii_decode_def ascii_def)
  have piecesC: "split ?cC 0 = [] @ ?cC # []"
    by (simp add: ascii_def)
  have restC: "\<forall>q\<in>set []. passed_over (loads ?eC) q"
    by simp
  have textC: "text_piece (loads ?eC) ?cC (JStr []) \<and> \<not> truthy (JStr [])"
    by (simp add: text_piece_def loads_scripted_env table_loads_def strip_def lstrip_def
        rstrip_def isspace_def ascii_def)
  have C: "llava_generate ?eC () (ascii ''q'') = Inl (HTTPException 500 (Unexpected (HTTPException 500 (Msg ''No valid text found in worker response''))))"
    by (rule no_usable_text_is_an_error [where response = ?rC and chunk_str = ?cC
          and before = "[]" and piece = ?cC and after = "[]",
          THEN conjunct2, THEN conjunct2, THEN conjunct2, THEN conjunct2, THEN conjunct2, THEN mp,
          THEN conjunct1, THEN spec, THEN mp])
      (intro conjI dC contentC piecesC restC, rule textC)
  \<comment> \<open>an object whose text is a number\<close>
  have dD: "generate_dispatch ?eD () (ascii ''q'') = Inr ?rD"
    by (rule generate_dispatch_scripted)
  have contentD: "content ?rD \<noteq> []" "utf8_decode ?eD (content ?rD) = Some ?cD"
    by (simp_all add: content_reply utf8_decode_scripted ascii_decode_def ascii_def)
  have piecesD: "split ?cD 0 = [] @ ?cD # []"
    by (simp add: ascii_def)
  have restD: "\<forall>q\<in>set []. passed_over (loads ?eD) q"
    by simp
  have textD: "text_piece (loads ?eD) ?cD (JInt 5) \<and> truthy (JInt 5) \<and> (\<forall>t. JInt 5 \<noteq> JStr t)"
    by (simp add: text_piece_def loads_scripted_env table_loads_def strip_def lstrip_def
        rstrip_def isspace_def ascii_def)
  have D: "llava_generate ?eD () (ascii ''q'') = Inl (HTTPException 500 (Unexpected AttributeError))"
    by (rule no_usable_text_is_an_error [where response = ?rD and chunk_str = ?cD
          and before = "[]" and piece = ?cD and after = "[]",
          THEN conjunct2, THEN conjunct2, THEN conjunct2, THEN conjunct2, THEN conjunct2, THEN mp,
          THEN conjunct2, THEN conjunct1, THEN spec, THEN mp])
      (intro conjI dD contentD piecesD restD, rule textD)
  \<comment> \<open>a number as the only piece\<close>
  have dE: "generate_dispatch ?eE () (ascii ''q'') = Inr ?rE"
    by (rule generate_dispatch_scripted)
  have contentE: "content ?rE \<noteq> []" "utf8_decode ?eE (content ?rE) = Some ?cE"
    by (simp_all add: content_reply utf8_decode_scripted ascii_decode_def ascii_def)
  have piecesE: "split ?cE 0 = [] @ ?cE # []"
    by (simp add: ascii_def)
  have restE: "\<forall>q\<in>set []. passed_over (loads ?eE) q"
    by simp
  have breakE: "breaking (loads ?eE) ?cE TypeError \<and> \<not> is_RequestError TypeError"
    by (simp add: breaking_def loads_scripted_env table_loads_def strip_def lstrip_def
        rstrip_def isspace_def ascii_def)
  have E: "llava_generate ?eE () (ascii ''q'') = Inl (HTTPException 500 (Unexpected TypeError))"
    by (rule no_usable_text_is_an_error [where response = ?rE and chunk_str = ?cE
          and before = "[]" and piece = ?cE and after = "[]",
          THEN conjunct2, THEN conjunct2, THEN conjunct2, THEN conjunct2, THEN conjunct2, THEN mp,
          THEN conjunct2, THEN conjunct2, THEN conjunct1, THEN spec, THEN mp])
      (intro conjI dE contentE piecesE restE, rule breakE)
  \<comment> \<open>a success fragment whose text is one blank\<close>
  have dG: "generate_dispatch ?eG () (ascii ''q'') = Inr ?rG"
    by (simp only: generate_dispatch_client_translate generate_dispatch_scripted)
  have contentG: "content ?rG \<noteq> []" "utf8_decode ?eG (content ?rG) = Some ?cG"
    by (simp_all add: content_reply utf8_decode_scripted ascii_decode_def ascii_def)
  have piecesG: "split ?cG 0 = [] @ ?cG # []"
    by (simp add: ascii_def)
  have restG: "\<forall>q\<in>set []. passed_over (loads ?eG) q"
    by simp
  have textG: "text_piece (loads ?eG) ?cG (JStr (ascii '' '')) \<and> ascii '' '' \<noteq> []"
    by (simp add: text_piece_def loads_scripted_env table_loads_def strip_def lstrip_def
        rstrip_def isspace_def ascii_def)
  have "llava_generate ?eG () (ascii ''q'') =
          endpoint_except
            (translate_text ?eG
               (strip (replace (ascii '' '')
                         (ascii ''[INST] <image>'' @ [0x0A] @ ascii ''q'' @ ascii '' [/INST]'') [])))"
    by (rule no_usable_text_is_an_error [where response = ?rG and chunk_str = ?cG
          and before = "[]" and piece = ?cG and after = "[]",
          THEN conjunct2, THEN conjunct2, THEN conjunct2, THEN conjunct2, THEN conjunct2, THEN mp,
          THEN conjunct2, THEN conjunct2, THEN conjunct2, THEN spec, THEN mp])
      (intro conjI dG contentG piecesG restG, rule textG)
  then have G: "llava_generate ?eG () (ascii ''q'') = Inr (Some (ascii ''[id] ''))"
    by (simp add: translate_text_def marked_translation_def bindE_def endpoint_except_def
        startswith_def strip_def lstrip_def rstrip_def isspace_def ascii_def)
  show ?thesis
    by (intro conjI Z1 Z2 Z3 unusable A1 A2 F B C D E G)
qed

section \<open>The order of the frames and the final frame\<close>




section \<open>Lines that are not JSON\<close>

text \<open>
  Claim C4, as stated, fails. A line of 100000 opening brackets is not empty and does not
  parse: \<open>json.loads\<close> raises \<open>RecursionError\<close> on it, which is not a
  \<open>json.JSONDecodeError\<close>. The handler for \<open>Exception\<close> logs it, and the line is dropped
  in both modes.
\<close>

theorem deeply_nested_line_counterexample:
  "replicate 100000 (91 :: nat) \<noteq> [] \<and>
   raising_loads [(replicate 100000 91, RecursionError)] (replicate 100000 91) = Inl RecursionError \<and>
   relay_lines scripted_str (raising_loads [(replicate 100000 91, RecursionError)])
     [replicate 100000 91] [] = [] \<and>
   read_lines (raising_loads [(replicate 100000 91, RecursionError)]) [replicate 100000 91] [] = []"
  by (simp add: raising_loads_def line_frames_def line_event_def process_line_def line_text_def
      bindE_def)

text \<open>
  Claim C4, amended. A line that is not empty and on which \<open>json.loads\<close> raises
  \<open>json.JSONDecodeError\<close> is neither dropped nor fatal: \<open>stream_generator\<close> yields the
  frame \<open>data: \<close>, the stripped line and two newlines, and the aggregation of \<open>main.py\<close>
  appends the stripped line to the buffer, in both cases at the line's place between
  what the lines before and after it contribute. A line on which \<open>json.loads\<close> raises
  another exception (\<open>RecursionError\<close>, \<open>ValueError\<close>) contributes nothing in either mode,
  and the lines before and after it contribute as they do without it.
\<close>

theorem undecodable_line_is_forwarded:
  assumes "line \<noteq> []"
  shows "(ld line = Inl JSONDecodeError \<longrightarrow>
            relay_lines fmt ld (before @ line # after) [] =
              relay_lines fmt ld before [] @ [ascii ''data: '' @ strip line @ [0x0A, 0x0A]] @
              relay_lines fmt ld after [] \<and>
            read_lines ld (before @ line # after) [] =
              read_lines ld before [] @ [strip line] @ read_lines ld after []) \<and>
         (\<forall>e. ld line = Inl e \<and> e \<noteq> JSONDecodeError \<longrightarrow>
            relay_lines fmt ld (before @ line # after) [] =
              relay_lines fmt ld before [] @ relay_lines fmt ld after [] \<and>
            read_lines ld (before @ line # after) [] =
              read_lines ld before [] @ read_lines ld after [])"
  using assms
  by (auto simp: relay_lines_append read_lines_append relay_lines_Cons read_lines_Cons
      line_frames_raw process_line_raw line_frames_other process_line_other data_frame_def
      simp del: relay_lines.simps(2) read_lines.simps(2))

text \<open>
  Three lines of plain text, the middle one with blanks around it; then the same with a
  middle line on which \<open>json.loads\<close> raises \<open>RecursionError\<close>.
\<close>

theorem undecodable_line_is_forwarded_witness:
  "raising_loads [(ascii ''[[[['', RecursionError)] (ascii ''  plain text '') = Inl JSONDecodeError \<and>
   relay_lines scripted_str (raising_loads [(ascii ''[[[['', RecursionError)])
     [ascii ''first'', ascii ''  plain text '', ascii ''last''] [] =
     [ascii ''data: first'' @ [10, 10], ascii ''data: plain text'' @ [10, 10],
      ascii ''data: last'' @ [10, 10]] \<and>
   read_lines (raising_loads [(ascii ''[[[['', RecursionError)])
     [ascii ''first'', ascii ''  plain text '', ascii ''last''] [] =
     [ascii ''first'', ascii ''plain text'', ascii ''last''] \<and>
   raising_loads [(ascii ''[[[['', RecursionError)] (ascii ''[[[['') = Inl RecursionError \<and>
   relay_lines scripted_str (raising_loads [(ascii ''[[[['', RecursionError)])
     [ascii ''first'', ascii ''[[[['', ascii ''last''] [] =
     [ascii ''data: first'' @ [10, 10], ascii ''data: last'' @ [10, 10]] \<and>
   read_lines (raising_loads [(ascii ''[[[['', RecursionError)])
     [ascii ''first'', ascii ''[[[['', ascii ''last''] [] =
     [ascii ''first'', ascii ''last'']"
proof -
  let ?ld = "raising_loads [(ascii ''[[[['', RecursionError)]"
  have raw: "?ld (ascii ''  plain text '') = Inl JSONDecodeError"
    by (simp add: raising_loads_def ascii_def)
  have deep: "?ld (ascii ''[[[['') = Inl RecursionError"
    by (simp add: raising_loads_def)
  have ne: "ascii ''  plain text '' \<noteq> []" "ascii ''[[[['' \<noteq> []"
    by (simp_all add: ascii_def)
  have stripped: "strip (ascii ''  plain text '') = ascii ''plain text''"
    by (simp add: strip_def lstrip_def rstrip_def isspace_def ascii_def)
  have relay: "relay_lines scripted_str ?ld [ascii ''first''] [] = [ascii ''data: first'' @ [10, 10]]"
    "relay_lines scripted_str ?ld [ascii ''last''] [] = [ascii ''data: last'' @ [10, 10]]"
    by (simp_all add: line_frames_def line_event_def bindE_def raising_loads_def data_frame_def
        strip_def lstrip_def rstrip_def isspace_def ascii_def)
  have rd: "read_lines ?ld [ascii ''first''] [] = [ascii ''first'']"
    "read_lines ?ld [ascii ''last''] [] = [ascii ''last'']"
    by (simp_all add: process_line_def line_text_def bindE_def raising_loads_def
        strip_def lstrip_def rstrip_def isspace_def ascii_def)
  from undecodable_line_is_forwarded [OF ne(1), of ?ld scripted_str "[ascii ''first'']" "[ascii ''last'']"] raw
  have first: "relay_lines scripted_str ?ld ([ascii ''first''] @ ascii ''  plain text '' # [ascii ''last'']) [] =
      [ascii ''data: first'' @ [10, 10]] @ [ascii ''data: '' @ ascii ''plain text'' @ [10, 10]] @
      [ascii ''data: last'' @ [10, 10]] \<and>
    read_lines ?ld ([ascii ''first''] @ ascii ''  plain text '' # [ascii ''last'']) [] =
      [ascii ''first''] @ [ascii ''plain text''] @ [ascii ''last'']"
    unfolding relay rd stripped by blast
  from undecodable_line_is_forwarded [OF ne(2), of ?ld scripted_str "[ascii ''first'']" "[ascii ''last'']"] deep
  have second: "relay_lines scripted_str ?ld ([ascii ''first''] @ ascii ''[[[['' # [ascii ''last'']) [] =
      [ascii ''data: first'' @ [10, 10]] @ [ascii ''data: last'' @ [10, 10]] \<and>
    read_lines ?ld ([ascii ''first''] @ ascii ''[[[['' # [ascii ''last'']) [] =
      [ascii ''first''] @ [ascii ''last'']"
    unfolding relay rd by simp
  have "ascii ''data: '' @ ascii ''plain text'' @ [10, 10] = ascii ''data: plain text'' @ [10, 10]"
    by (simp add: ascii_def)
  with first second raw deep show ?thesis
    by simp
qed

section \<open>Fragments that bring no text\<close>

text \<open>
  Claim C5. A structured fragment without the status code field, with a status code that
  is not \<open>0\<close>, or with the status code \<open>0\<close> and no text field, appends nothing to the
  buffer, and the lines before and after it are decoded as they are without it: the
  aggregation of \<open>generate\<close> and of \<open>chat\<close> gives the same result as for the stream
  without that line.
\<close>

theorem failing_fragment_is_skipped:
  assumes "ld line = Inr (JObj kv)"
    and "map_of kv (ascii ''error_code'') = None \<or>
         (\<exists>code. map_of kv (ascii ''error_code'') = Some code \<and>
            (\<not> eq_zero code \<or> map_of kv (ascii ''text'') = None))"
  shows "read_lines ld (before @ line # after) [] =
           read_lines ld before [] @ read_lines ld after [] \<and>
         generate_aggregate ld (response\<lparr>aiter_lines := before @ line # after\<rparr>) =
           generate_aggregate ld (response\<lparr>aiter_lines := before @ after\<rparr>) \<and>
         chat_aggregate ld (response\<lparr>aiter_lines := before @ line # after\<rparr>) =
           chat_aggregate ld (response\<lparr>aiter_lines := before @ after\<rparr>)"
proof -
  have "read_lines ld (line # after) [] = read_lines ld after []"
    using process_line_dropped [of ld line kv, OF assms] by (simp add: read_lines_Cons del: read_lines.simps(2))
  then have "read_lines ld (before @ line # after) [] = read_lines ld (before @ after) []"
    by (simp add: read_lines_append)
  then show ?thesis
    by (simp add: generate_aggregate_def chat_aggregate_def read_lines_append)
qed

theorem failing_fragment_is_skipped_witness:
  \<open>table_loads
     [(ascii ''{"error_code": 0, "text": "a"}'',
       JObj [(ascii ''error_code'', JInt 0), (ascii ''text'', JStr (ascii ''a''))]),
      (ascii ''{"error_code": 1, "text": "boom"}'',
       JObj [(ascii ''error_code'', JInt 1), (ascii ''text'', JStr (ascii ''boom''))])]
     (ascii ''{"error_code": 1, "text": "boom"}'') =
     Inr (JObj [(ascii ''error_code'', JInt 1), (ascii ''text'', JStr (ascii ''boom''))]) \<and>
   \<not> eq_zero (JInt 1) \<and>
   read_lines
     (table_loads
        [(ascii ''{"error_code": 0, "text": "a"}'',
          JObj [(ascii ''error_code'', JInt 0), (ascii ''text'', JStr (ascii ''a''))]),
         (ascii ''{"error_code": 1, "text": "boom"}'',
          JObj [(ascii ''error_code'', JInt 1), (ascii ''text'', JStr (ascii ''boom''))])])
     [ascii ''{"error_code": 0, "text": "a"}'', ascii ''{"error_code": 1, "text": "boom"}'',
      ascii ''{"error_code": 0, "text": "a"}''] [] = [ascii ''a'', ascii ''a'']\<close>
proof -
  let ?kv = "[(ascii ''error_code'', JInt 1), (ascii ''text'', JStr (ascii ''boom''))]"
  let ?tbl = \<open>[(ascii ''{"error_code": 0, "text": "a"}'',
          JObj [(ascii ''error_code'', JInt 0), (ascii ''text'', JStr (ascii ''a''))]),
         (ascii ''{"error_code": 1, "text": "boom"}'', JObj ?kv)]\<close>
  let ?ok = \<open>ascii ''{"error_code": 0, "text": "a"}''\<close>
  let ?bad = \<open>ascii ''{"error_code": 1, "text": "boom"}''\<close>
  have parsed: "table_loads ?tbl ?bad = Inr (JObj ?kv)"
    by (simp add: table_loads_def ascii_def)
  have code: "map_of ?kv (ascii ''error_code'') = None \<or>
              (\<exists>code. map_of ?kv (ascii ''error_code'') = Some code \<and>
                 (\<not> eq_zero code \<or> map_of ?kv (ascii ''text'') = None))"
    by (simp add: ascii_def)
  have one: "read_lines (table_loads ?tbl) [?ok] [] = [ascii ''a'']"
    by (simp add: process_line_def line_text_def bindE_def table_loads_def ascii_def
        strip_def lstrip_def rstrip_def isspace_def)
  from failing_fragment_is_skipped [of "table_loads ?tbl" ?bad ?kv "[?ok]" "[?ok]", OF parsed code]
  have "read_lines (table_loads ?tbl) ([?ok] @ ?bad # [?ok]) [] = [ascii ''a''] @ [ascii ''a'']"
    unfolding one by (rule conjunct1)
  with parsed show ?thesis
    by simp
qed

section \<open>A failing lookup of the worker\<close>

text \<open>
  Claim C6 does not hold for the code. When the controller answers with status 500,
  \<open>get_worker_address\<close> raises the \<open>HTTPException\<close> with status 503, but the last
  handler of \<open>generate\<close> catches it and the client receives status 500. When the
  controller's reply has no address field, \<open>get_worker_address\<close> raises \<open>KeyError\<close>,
  which is not an \<open>httpx.HTTPError\<close>, and the client receives status 500 too.
\<close>

theorem registry_failure_reaches_client_as_500:
  "get_worker_address
     (scripted_env (Inr (reply 500 (Inr (JObj [])) [] [])) (Inl RequestError) (Inl RequestError) []
        (Inr []))
     model_name =
     Inl (HTTPException 503 (Msg ''Failed to get worker address from controller'')) \<and>
   generate
     (scripted_env (Inr (reply 500 (Inr (JObj [])) [] [])) (Inl RequestError) (Inl RequestError) []
        (Inr []))
     () (ascii ''q'') =
     Inl (HTTPException 500
            (Unexpected (HTTPException 503 (Msg ''Failed to get worker address from controller'')))) \<and>
   get_worker_address
     (scripted_env (Inr (reply 200 (Inr (JObj [])) [] [])) (Inl RequestError) (Inl RequestError) []
        (Inr []))
     model_name = Inl KeyError \<and>
   generate
     (scripted_env (Inr (reply 200 (Inr (JObj [])) [] [])) (Inl RequestError) (Inl RequestError) []
        (Inr []))
     () (ascii ''q'') = Inl (HTTPException 500 (Unexpected KeyError))"
  by (simp add: generate_def generate_dispatch_def get_worker_address_def scripted_env_def
      reply_def bindE_def raise_for_status_def endpoint_except_def)

section \<open>The payload of \<open>generate\<close>\<close>

text \<open>
  Claim C7. Once the image is processed and the worker's address is known, \<open>generate\<close>
  (of \<open>main.py\<close> and of \<open>llava_med_api.py\<close>) posts to that address the payload built for the prompt \<open>p\<close>, and in that payload the
  prompt is \<open>"[INST] <image>\n" + p + " [/INST]"\<close> and the sampling parameters are
  \<open>temperature = 0.2\<close>, \<open>top_p = 0.7\<close>, \<open>max_new_tokens = 512\<close> and \<open>stop = "</s>"\<close>.
\<close>

theorem generate_posts_template_and_sampling:
  assumes "process_image env upload = Inr (image_hash, base64_image)"
    and "get_worker_address env model_name = Inr worker_address"
  shows "generate_dispatch env upload p =
           bindE (worker_post env worker_address (generate_payload p base64_image))
             (\<lambda>response. bindE (raise_for_status (status_code response)) (\<lambda>_. Inr response)) \<and>
         generate env upload p =
           endpoint_except
             (bindE (bindE (worker_post env worker_address (generate_payload p base64_image))
                       (\<lambda>response. bindE (raise_for_status (status_code response)) (\<lambda>_. Inr response)))
                (generate_aggregate (loads env))) \<and>
         llava_generate env upload p =
           endpoint_except
             (bindE (bindE (worker_post env worker_address (generate_payload p base64_image))
                       (\<lambda>response. bindE (raise_for_status (status_code response)) (\<lambda>_. Inr response)))
                (\<lambda>response.
                   bindE (last_chunk_text (loads env) (utf8_decode env) p response)
                     (translate_text env))) \<and>
         getitem (generate_payload p base64_image) (ascii ''prompt'') =
           Inr (JStr (ascii ''[INST] <image>'' @ [0x0A] @ p @ ascii '' [/INST]'')) \<and>
         getitem (generate_payload p base64_image) (ascii ''temperature'') =
           Inr (JFloat (Finite (2 / 10))) \<and>
         getitem (generate_payload p base64_image) (ascii ''top_p'') =
           Inr (JFloat (Finite (7 / 10))) \<and>
         getitem (generate_payload p base64_image) (ascii ''max_new_tokens'') = Inr (JInt 512) \<and>
         getitem (generate_payload p base64_image) (ascii ''stop'') = Inr (JStr (ascii ''</s>''))"
proof -
  have dispatch: "generate_dispatch env upload p =
           bindE (worker_post env worker_address (generate_payload p base64_image))
             (\<lambda>response. bindE (raise_for_status (status_code response)) (\<lambda>_. Inr response))"
    using assms by (simp add: generate_dispatch_def bindE_def)
  have fields: "getitem (generate_payload p base64_image) (ascii ''prompt'') =
           Inr (JStr (ascii ''[INST] <image>'' @ [0x0A] @ p @ ascii '' [/INST]'')) \<and>
         getitem (generate_payload p base64_image) (ascii ''temperature'') =
           Inr (JFloat (Finite (2 / 10))) \<and>
         getitem (generate_payload p base64_image) (ascii ''top_p'') =
           Inr (JFloat (Finite (7 / 10))) \<and>
         getitem (generate_payload p base64_image) (ascii ''max_new_tokens'') = Inr (JInt 512) \<and>
         getitem (generate_payload p base64_image) (ascii ''stop'') = Inr (JStr (ascii ''</s>''))"
    by (simp add: generate_payload_def ascii_def)
  from dispatch fields show ?thesis
    by (simp add: generate_def llava_generate_def)
qed

text \<open>
  A worker that sends back the payload it received: for the prompt \<open>What is shown?\<close> it
  received the template around that prompt and the four sampling parameters.
\<close>

theorem generate_posts_template_and_sampling_witness:
  "generate_dispatch
     ((scripted_env controller_ok (Inl RequestError) (Inl RequestError) [] (Inr []))
        \<lparr>worker_post := echo_worker\<rparr>)
     () (ascii ''What is shown?'') =
   Inr (reply 200
          (Inr (JObj
             [(ascii ''model'', JStr (ascii ''llava-med-v1.5-mistral-7b'')),
              (ascii ''prompt'',
               JStr (ascii ''[INST] <image>'' @ [10] @ ascii ''What is shown? [/INST]'')),
              (ascii ''temperature'', JFloat (Finite (2 / 10))),
              (ascii ''top_p'', JFloat (Finite (7 / 10))),
              (ascii ''max_new_tokens'', JInt 512),
              (ascii ''stop'', JStr (ascii ''</s>'')),
              (ascii ''images'', JArr [JStr (ascii ''aGk='')])]))
          [] [])"
proof -
  let ?env = "(scripted_env controller_ok (Inl RequestError) (Inl RequestError) [] (Inr []))
                \<lparr>worker_post := echo_worker\<rparr>"
  have img: "process_image ?env () = Inr (ascii ''d41d8cd9'', ascii ''aGk='')"
    by (simp add: scripted_env_def)
  have addr: "get_worker_address ?env model_name = Inr (JStr (ascii ''http://w:1''))"
    by (simp only: get_worker_address_worker_post get_worker_address_ok)
  from generate_posts_template_and_sampling [OF img addr, of "ascii ''What is shown?''"]
  have "generate_dispatch ?env () (ascii ''What is shown?'') =
          bindE (worker_post ?env (JStr (ascii ''http://w:1''))
                   (generate_payload (ascii ''What is shown?'') (ascii ''aGk='')))
            (\<lambda>response. bindE (raise_for_status (status_code response)) (\<lambda>_. Inr response))"
    by (rule conjunct1)
  then show ?thesis
    by (simp add: echo_worker_def bindE_def raise_for_status_def reply_def generate_payload_def
        model_name_def)
      (simp add: ascii_def)
qed

section \<open>A failing translation\<close>

text \<open>
  Claim C8, as stated, fails. The worker's body carries the text \<open>"Normal chest."\<close> and
  the translation client raises an exception: \<open>generate\<close> of \<open>llava_med_api.py\<close> fails
  with status 500 and returns no text.
\<close>

theorem translation_failure_counterexample:
  \<open>last_chunk_text
     (table_loads [(ascii ''{"text": "Normal chest."}'',
                    JObj [(ascii ''text'', JStr (ascii ''Normal chest.''))])])
     ascii_decode (ascii ''q'')
     (reply 200 (Inl JSONDecodeError) [] [ascii ''{"text": "Normal chest."}'']) =
     Inr (ascii ''Normal chest.'') \<and>
   llava_generate
     (scripted_env controller_ok
        (Inr (reply 200 (Inl JSONDecodeError) [] [ascii ''{"text": "Normal chest."}'']))
        (Inl RequestError)
        [(ascii ''{"text": "Normal chest."}'', JObj [(ascii ''text'', JStr (ascii ''Normal chest.''))])]
        (Inl (OtherException ''ServiceUnavailable'')))
     () (ascii ''q'') =
     Inl (HTTPException 500 (Unexpected (OtherException ''ServiceUnavailable'')))\<close>
proof -
  have extracted: \<open>last_chunk_text
     (table_loads [(ascii ''{"text": "Normal chest."}'',
                    JObj [(ascii ''text'', JStr (ascii ''Normal chest.''))])])
     ascii_decode (ascii ''q'')
     (reply 200 (Inl JSONDecodeError) [] [ascii ''{"text": "Normal chest."}'']) =
     Inr (ascii ''Normal chest.'')\<close>
    by (simp add: last_chunk_text_def aiter_bytes_def content_reply decode_utf8_def
        ascii_decode_def bindE_def table_loads_def startswith_def strip_def lstrip_def rstrip_def
        isspace_def ascii_def)
  then show ?thesis
    by (simp add: llava_generate_def generate_dispatch_scripted loads_scripted_env
        utf8_decode_scripted bindE_def translate_text_def client_translate_scripted
        endpoint_except_def)
qed

text \<open>
  Claim C8, amended. When the worker produced the text \<open>generated_text\<close>, the outcome of
  the translation call decides the request, and there is no fallback to the untranslated
  text. An exception of the translation client makes the request fail: with status 503
  when it is an \<open>httpx\<close> request error, with status 500 otherwise. When the client
  returns, the request succeeds: with the first translation as \<open>generated_text\<close>, or with
  \<open>None\<close> as \<open>generated_text\<close> when the client returns no translation.
\<close>

theorem translation_decides_the_request:
  assumes "generate_dispatch env upload prompt = Inr response"
    and "last_chunk_text (loads env) (utf8_decode env) prompt response = Inr generated_text"
  shows "(\<forall>e. client_translate env generated_text = Inl e \<longrightarrow>
            llava_generate env upload prompt =
              (if is_RequestError e
               then Inl (HTTPException 503 (Msg ''Service unavailable due to network error''))
               else Inl (HTTPException 500 (Unexpected e)))) \<and>
         (client_translate env generated_text = Inr [] \<longrightarrow>
            llava_generate env upload prompt = Inr None) \<and>
         (\<forall>t ts. client_translate env generated_text = Inr (t # ts) \<longrightarrow>
            llava_generate env upload prompt = Inr (Some t))"
proof (intro conjI allI impI)
  fix e
  assume "client_translate env generated_text = Inl e"
  with assms show "llava_generate env upload prompt =
              (if is_RequestError e
               then Inl (HTTPException 503 (Msg ''Service unavailable due to network error''))
               else Inl (HTTPException 500 (Unexpected e)))"
    by (cases e) (simp_all add: llava_generate_def bindE_def translate_text_def endpoint_except_def)
next
  assume "client_translate env generated_text = Inr []"
  with assms show "llava_generate env upload prompt = Inr None"
    by (simp add: llava_generate_def bindE_def translate_text_def endpoint_except_def)
next
  fix t ts
  assume "client_translate env generated_text = Inr (t # ts)"
  with assms show "llava_generate env upload prompt = Inr (Some t)"
    by (simp add: llava_generate_def bindE_def translate_text_def endpoint_except_def)
qed

text \<open>
  The same reply with a translation client that fails, one that times out, one that
  returns no translation, and one that marks the text it was given.
\<close>

theorem translation_decides_the_request_witness:
  \<open>llava_generate
     (scripted_env controller_ok
        (Inr (reply 200 (Inl JSONDecodeError) [] [ascii ''{"text": " No fracture. "}'']))
        (Inl RequestError)
        [(ascii ''{"text": " No fracture. "}'', JObj [(ascii ''text'', JStr (ascii '' No fracture. ''))])]
        (Inl (OtherException ''DeadlineExceeded'')))
     () (ascii ''q'') =
     Inl (HTTPException 500 (Unexpected (OtherException ''DeadlineExceeded''))) \<and>
   llava_generate
     (scripted_env controller_ok
        (Inr (reply 200 (Inl JSONDecodeError) [] [ascii ''{"text": " No fracture. "}'']))
        (Inl RequestError)
        [(ascii ''{"text": " No fracture. "}'', JObj [(ascii ''text'', JStr (ascii '' No fracture. ''))])]
        (Inl TimeoutException))
     () (ascii ''q'') =
     Inl (HTTPException 503 (Msg ''Service unavailable due to network error'')) \<and>
   llava_generate
     (scripted_env controller_ok
        (Inr (reply 200 (Inl JSONDecodeError) [] [ascii ''{"text": " No fracture. "}'']))
        (Inl RequestError)
        [(ascii ''{"text": " No fracture. "}'', JObj [(ascii ''text'', JStr (ascii '' No fracture. ''))])]
        (Inr []))
     () (ascii ''q'') = Inr None \<and>
   llava_generate
     ((scripted_env controller_ok
        (Inr (reply 200 (Inl JSONDecodeError) [] [ascii ''{"text": " No fracture. "}'']))
        (Inl RequestError)
        [(ascii ''{"text": " No fracture. "}'', JObj [(ascii ''text'', JStr (ascii '' No fracture. ''))])]
        (Inr []))\<lparr>client_translate := marked_translation\<rparr>)
     () (ascii ''q'') = Inr (Some (ascii ''[id] No fracture.''))\<close>
proof -
  let ?tbl = \<open>[(ascii ''{"text": " No fracture. "}'',
                JObj [(ascii ''text'', JStr (ascii '' No fracture. ''))])]\<close>
  let ?r = \<open>reply 200 (Inl JSONDecodeError) [] [ascii ''{"text": " No fracture. "}'']\<close>
  let ?env = "\<lambda>outcome. scripted_env controller_ok (Inr ?r) (Inl RequestError) ?tbl outcome"
  let ?marked = "(?env (Inr []))\<lparr>client_translate := marked_translation\<rparr>"
  have extracted: "last_chunk_text (table_loads ?tbl) ascii_decode (ascii ''q'') ?r =
                     Inr (ascii ''No fracture.'')"
    by (simp add: last_chunk_text_def aiter_bytes_def content_reply decode_utf8_def
        ascii_decode_def bindE_def table_loads_def startswith_def strip_def lstrip_def rstrip_def
        isspace_def ascii_def)
  have d: "generate_dispatch (?env outcome) () (ascii ''q'') = Inr ?r" for outcome
    by (rule generate_dispatch_scripted)
  have t: "last_chunk_text (loads (?env outcome)) (utf8_decode (?env outcome))
             (ascii ''q'') ?r = Inr (ascii ''No fracture.'')" for outcome
    using extracted by (simp only: loads_scripted_env utf8_decode_scripted)
  have d': "generate_dispatch ?marked () (ascii ''q'') = Inr ?r"
    by (simp only: generate_dispatch_client_translate generate_dispatch_scripted)
  have t': "last_chunk_text (loads ?marked) (utf8_decode ?marked) (ascii ''q'') ?r =
              Inr (ascii ''No fracture.'')"
    using extracted by (simp add: loads_scripted_env utf8_decode_scripted)
  from translation_decides_the_request [OF d t, of "Inl (OtherException ''DeadlineExceeded'')"]
  have first: "llava_generate (?env (Inl (OtherException ''DeadlineExceeded''))) () (ascii ''q'') =
                 Inl (HTTPException 500 (Unexpected (OtherException ''DeadlineExceeded'')))"
    by (simp add: client_translate_scripted)
  from translation_decides_the_request [OF d t, of "Inl TimeoutException"]
  have second: "llava_generate (?env (Inl TimeoutException)) () (ascii ''q'') =
                  Inl (HTTPException 503 (Msg ''Service unavailable due to network error''))"
    by (simp add: client_translate_scripted)
  from translation_decides_the_request [OF d t, of "Inr []"]
  have third: "llava_generate (?env (Inr [])) () (ascii ''q'') = Inr None"
    by (simp add: client_translate_scripted)
  from translation_decides_the_request [OF d' t']
  have fourth: "llava_generate ?marked () (ascii ''q'') = Inr (Some (ascii ''[id] No fracture.''))"
    by (simp add: marked_translation_def ascii_def)
  from first second third fourth show ?thesis
    by simp
qed

section \<open>The text of the last chunk\<close>

text \<open>
  Claim C9, as stated, fails. The worker sends two chunks: an object with the text
  \<open>"early"\<close> followed by a NUL, and then an object without a text field. \<open>client.post\<close>
  has read the whole body, so the only chunk that \<open>generate\<close> of \<open>llava_med_api.py\<close> sees
  is that body, and the text of the earlier chunk is what the response carries. With the
  last chunk alone the request fails.
\<close>

theorem earlier_chunk_is_read_counterexample:
  \<open>llava_generate ((scripted_env controller_ok
        (Inr (reply 200 (Inl JSONDecodeError) [] [ascii ''{"text": "early"}'' @ [0], ascii ''{"error_code": 0}'']))
        (Inl RequestError)
        [(ascii ''{"text": "early"}'', JObj [(ascii ''text'', JStr (ascii ''early''))]),
         (ascii ''{"error_code": 0}'', JObj [(ascii ''error_code'', JInt 0)])]
        (Inr []))\<lparr>client_translate := marked_translation\<rparr>) () (ascii ''q'') = Inr (Some (ascii ''[id] early'')) \<and>
   llava_generate ((scripted_env controller_ok
        (Inr (reply 200 (Inl JSONDecodeError) [] [ascii ''{"error_code": 0}'']))
        (Inl RequestError)
        [(ascii ''{"text": "early"}'', JObj [(ascii ''text'', JStr (ascii ''early''))]),
         (ascii ''{"error_code": 0}'', JObj [(ascii ''error_code'', JInt 0)])]
        (Inr []))\<lparr>client_translate := marked_translation\<rparr>) () (ascii ''q'') = Inl (HTTPException 500 (Unexpected (HTTPException 500 (Msg ''No valid text found in worker response''))))\<close>
proof -
  have both: \<open>last_chunk_text (table_loads [(ascii ''{"text": "early"}'', JObj [(ascii ''text'', JStr (ascii ''early''))]),
         (ascii ''{"error_code": 0}'', JObj [(ascii ''error_code'', JInt 0)])]) ascii_decode (ascii ''q'')
      (reply 200 (Inl JSONDecodeError) []
         [ascii ''{"text": "early"}'' @ [0], ascii ''{"error_code": 0}'']) = Inr (ascii ''early'')\<close>
    by (simp add: last_chunk_text_def aiter_bytes_def content_reply decode_utf8_def
        ascii_decode_def bindE_def table_loads_def startswith_def strip_def lstrip_def rstrip_def
        isspace_def ascii_def)
  have only_last: \<open>last_chunk_text (table_loads [(ascii ''{"text": "early"}'', JObj [(ascii ''text'', JStr (ascii ''early''))]),
         (ascii ''{"error_code": 0}'', JObj [(ascii ''error_code'', JInt 0)])]) ascii_decode (ascii ''q'')
      (reply 200 (Inl JSONDecodeError) [] [ascii ''{"error_code": 0}'']) =
      Inl (HTTPException 500 (Msg ''No valid text found in worker response''))\<close>
    by (simp add: last_chunk_text_def aiter_bytes_def content_reply decode_utf8_def
        ascii_decode_def bindE_def table_loads_def strip_def lstrip_def rstrip_def
        isspace_def ascii_def)
  have first: \<open>llava_generate ((scripted_env controller_ok
        (Inr (reply 200 (Inl JSONDecodeError) [] [ascii ''{"text": "early"}'' @ [0], ascii ''{"error_code": 0}'']))
        (Inl RequestError)
        [(ascii ''{"text": "early"}'', JObj [(ascii ''text'', JStr (ascii ''early''))]),
         (ascii ''{"error_code": 0}'', JObj [(ascii ''error_code'', JInt 0)])]
        (Inr []))\<lparr>client_translate := marked_translation\<rparr>) () (ascii ''q'') = Inr (Some (ascii ''[id] early''))\<close>
    using both
    by (simp add: llava_generate_def generate_dispatch_client_translate generate_dispatch_scripted
        loads_scripted_env utf8_decode_scripted bindE_def translate_text_def
        marked_translation_def endpoint_except_def)
      (simp add: ascii_def)
  have second: \<open>llava_generate ((scripted_env controller_ok
        (Inr (reply 200 (Inl JSONDecodeError) [] [ascii ''{"error_code": 0}'']))
        (Inl RequestError)
        [(ascii ''{"text": "early"}'', JObj [(ascii ''text'', JStr (ascii ''early''))]),
         (ascii ''{"error_code": 0}'', JObj [(ascii ''error_code'', JInt 0)])]
        (Inr []))\<lparr>client_translate := marked_translation\<rparr>) () (ascii ''q'') = Inl (HTTPException 500 (Unexpected (HTTPException 500 (Msg ''No valid text found in worker response''))))\<close>
    using only_last
    by (simp add: llava_generate_def generate_dispatch_client_translate generate_dispatch_scripted
        loads_scripted_env utf8_decode_scripted bindE_def endpoint_except_def)
  show ?thesis
    by (intro conjI first second)
qed

text \<open>
  Claim C9, amended. \<open>generate\<close> of \<open>llava_med_api.py\<close> examines the whole body of the
  response, as one chunk. It scans the NUL-delimited pieces of the body from the end and
  passes over the pieces that are blank, are not JSON, or are JSON without a text member.
  When the first other piece is an object with a text field, \<open>full_text\<close> is that
  field's value \<open>v\<close> and the outcome of the request is computed from \<open>v\<close> alone: the
  pieces before it do not contribute. When the first other piece breaks the scan with an
  exception (\<open>json.loads\<close> raises something other than \<open>JSONDecodeError\<close>, or the piece
  is a JSON value that is no object and raises \<open>TypeError\<close>), the request fails with that
  exception, whatever text the pieces before it carry. Every piece is of one of these
  three kinds.
\<close>

theorem last_piece_with_text_decides:
  assumes "generate_dispatch env upload prompt = Inr response"
    and "content response \<noteq> []"
    and "utf8_decode env (content response) = Some chunk_str"
    and "split chunk_str 0 = before @ piece # after"
    and "\<forall>q\<in>set after. passed_over (loads env) q"
  shows "(\<forall>v. text_piece (loads env) piece v \<longrightarrow>
            find_text (loads env) (rev (split chunk_str 0)) = Inr v \<and>
            llava_generate env upload prompt =
              endpoint_except
                (bindE
                   (if truthy v
                    then bindE (replace_method v
                                  (ascii ''[INST] <image>'' @ [0x0A] @ prompt @ ascii '' [/INST]'') [])
                           (\<lambda>replaced. Inr (strip replaced))
                    else Inl (HTTPException 500 (Msg ''No valid text found in worker response'')))
                   (translate_text env))) \<and>
         (\<forall>e. breaking (loads env) piece e \<longrightarrow>
            find_text (loads env) (rev (split chunk_str 0)) = Inl e \<and>
            llava_generate env upload prompt =
              (if is_RequestError e
               then Inl (HTTPException 503 (Msg ''Service unavailable due to network error''))
               else Inl (HTTPException 500 (Unexpected e)))) \<and>
         (\<forall>q. passed_over (loads env) q \<or> (\<exists>v. text_piece (loads env) q v) \<or>
               (\<exists>e. breaking (loads env) q e))"
proof (intro conjI allI impI)
  fix v
  assume v: "text_piece (loads env) piece v"
  with assms(4,5) show found: "find_text (loads env) (rev (split chunk_str 0)) = Inr v"
    by (simp add: find_text_decisive find_text_text_piece del: find_text.simps)
  with llava_generate_scan [OF assms(1-3)]
  show "llava_generate env upload prompt =
              endpoint_except
                (bindE
                   (if truthy v
                    then bindE (replace_method v
                                  (ascii ''[INST] <image>'' @ [0x0A] @ prompt @ ascii '' [/INST]'') [])
                           (\<lambda>replaced. Inr (strip replaced))
                    else Inl (HTTPException 500 (Msg ''No valid text found in worker response'')))
                   (translate_text env))"
    by (simp add: bindE_def)
next
  fix e
  assume e: "breaking (loads env) piece e"
  with assms(4,5) show found: "find_text (loads env) (rev (split chunk_str 0)) = Inl e"
    by (simp add: find_text_decisive find_text_breaking del: find_text.simps)
  with llava_generate_scan [OF assms(1-3)]
  show "llava_generate env upload prompt =
              (if is_RequestError e
               then Inl (HTTPException 503 (Msg ''Service unavailable due to network error''))
               else Inl (HTTPException 500 (Unexpected e)))"
    by (cases e) (simp_all add: bindE_def endpoint_except_def)
next
  fix q
  show "passed_over (loads env) q \<or> (\<exists>v. text_piece (loads env) q v) \<or>
               (\<exists>e. breaking (loads env) q e)"
    by (rule piece_kinds)
qed

text \<open>
  A body sent in two chunks, each an object with a text and a NUL: the text of the second
  object is cleaned of the template and translated. Then a body whose last piece is a
  number: the request fails with \<open>TypeError\<close>.
\<close>

theorem last_piece_with_text_decides_witness:
  \<open>split (ascii ''{"text": "first"}'' @ [0] @ (ascii ''{"text": "[INST] <image>'' @ [92, 110] @ ascii ''q [/INST] second"}'') @ [0]) 0 =
     [ascii ''{"text": "first"}''] @ (ascii ''{"text": "[INST] <image>'' @ [92, 110] @ ascii ''q [/INST] second"}'') # [[]] \<and>
   llava_generate ((scripted_env controller_ok
        (Inr (reply 200 (Inl JSONDecodeError) [] [ascii ''{"text": "first"}'' @ [0], (ascii ''{"text": "[INST] <image>'' @ [92, 110] @ ascii ''q [/INST] second"}'') @ [0]]))
        (Inl RequestError)
        [(ascii ''{"text": "first"}'', JObj [(ascii ''text'', JStr (ascii ''first''))]),
         ((ascii ''{"text": "[INST] <image>'' @ [92, 110] @ ascii ''q [/INST] second"}''),
          JObj [(ascii ''text'',
                 JStr (ascii ''[INST] <image>'' @ [10] @ ascii ''q [/INST] second''))]),
         (ascii ''7'', JInt 7)]
        (Inr []))\<lparr>client_translate := marked_translation\<rparr>) () (ascii ''q'') = Inr (Some (ascii ''[id] second'')) \<and>
   split (ascii ''{"text": "first"}'' @ [0] @ ascii ''7'') 0 =
     [ascii ''{"text": "first"}''] @ ascii ''7'' # [] \<and>
   llava_generate ((scripted_env controller_ok
        (Inr (reply 200 (Inl JSONDecodeError) [] [ascii ''{"text": "first"}'' @ [0] @ ascii ''7'']))
        (Inl RequestError)
        [(ascii ''{"text": "first"}'', JObj [(ascii ''text'', JStr (ascii ''first''))]),
         ((ascii ''{"text": "[INST] <image>'' @ [92, 110] @ ascii ''q [/INST] second"}''),
          JObj [(ascii ''text'',
                 JStr (ascii ''[INST] <image>'' @ [10] @ ascii ''q [/INST] second''))]),
         (ascii ''7'', JInt 7)]
        (Inr []))\<lparr>client_translate := marked_translation\<rparr>) () (ascii ''q'') = Inl (HTTPException 500 (Unexpected TypeError))\<close>
proof -
  let ?p1 = \<open>ascii ''{"text": "first"}''\<close>
  let ?p2 = \<open>(ascii ''{"text": "[INST] <image>'' @ [92, 110] @ ascii ''q [/INST] second"}'')\<close>
  let ?v = "JStr (ascii ''[INST] <image>'' @ [10] @ ascii ''q [/INST] second'')"
  let ?tbl = \<open>[(ascii ''{"text": "first"}'', JObj [(ascii ''text'', JStr (ascii ''first''))]),
         (ascii ''{"text": "[INST] <image>'' @ [92, 110] @ ascii ''q [/INST] second"}'',
          JObj [(ascii ''text'',
                 JStr (ascii ''[INST] <image>'' @ [10] @ ascii ''q [/INST] second''))]),
         (ascii ''7'', JInt 7)]\<close>
  let ?c = "?p1 @ [0] @ ?p2 @ [0]"
  let ?r = "reply 200 (Inl JSONDecodeError) [] [?p1 @ [0], ?p2 @ [0]]"
  let ?env = "(scripted_env controller_ok (Inr ?r) (Inl RequestError) ?tbl (Inr []))
                \<lparr>client_translate := marked_translation\<rparr>"
  have dispatch: "generate_dispatch ?env () (ascii ''q'') = Inr ?r"
    by (simp only: generate_dispatch_client_translate generate_dispatch_scripted)
  have body: "content ?r = ?c"
    by (simp add: content_reply)
  have nonempty: "content ?r \<noteq> []"
    unfolding body by (simp add: ascii_def)
  have decoded: "utf8_decode ?env (content ?r) = Some ?c"
    unfolding body
    by (simp add: utf8_decode_scripted ascii_decode_def ascii_def)
  have pieces: "split ?c 0 = [?p1] @ ?p2 # [[]]"
    by (simp add: ascii_def)
  have rest: "\<forall>q\<in>set [[]]. passed_over (loads ?env) q"
    by (simp add: passed_over_def strip_def lstrip_def rstrip_def)
  have chosen: "text_piece (loads ?env) ?p2 ?v"
    by (simp add: text_piece_def loads_scripted_env table_loads_def strip_def lstrip_def
        rstrip_def isspace_def ascii_def)
  from last_piece_with_text_decides [OF dispatch nonempty decoded pieces rest,
      THEN conjunct1, THEN spec, THEN mp, OF chosen, THEN conjunct2]
  have first: "llava_generate ?env () (ascii ''q'') = Inr (Some (ascii ''[id] second''))"
    by (simp add: bindE_def translate_text_def marked_translation_def endpoint_except_def
        startswith_def strip_def lstrip_def rstrip_def isspace_def ascii_def)
  let ?c' = "?p1 @ [0] @ ascii ''7''"
  let ?r' = "reply 200 (Inl JSONDecodeError) [] [?p1 @ [0] @ ascii ''7'']"
  let ?env' = "(scripted_env controller_ok (Inr ?r') (Inl RequestError) ?tbl (Inr []))
                \<lparr>client_translate := marked_translation\<rparr>"
  have dispatch': "generate_dispatch ?env' () (ascii ''q'') = Inr ?r'"
    by (simp only: generate_dispatch_client_translate generate_dispatch_scripted)
  have body': "content ?r' = ?c'"
    by (simp add: content_reply)
  have nonempty': "content ?r' \<noteq> []"
    unfolding body' by (simp add: ascii_def)
  have decoded': "utf8_decode ?env' (content ?r') = Some ?c'"
    unfolding body'
    by (simp add: utf8_decode_scripted ascii_decode_def ascii_def)
  have pieces': "split ?c' 0 = [?p1] @ ascii ''7'' # []"
    by (simp add: ascii_def)
  have rest': "\<forall>q\<in>set []. passed_over (loads ?env') q"
    by simp
  have breaks: "breaking (loads ?env') (ascii ''7'') TypeError"
    by (simp add: breaking_def loads_scripted_env table_loads_def strip_def lstrip_def
        rstrip_def isspace_def ascii_def)
  from last_piece_with_text_decides [OF dispatch' nonempty' decoded' pieces' rest',
      THEN conjunct2, THEN conjunct1, THEN spec, THEN mp, OF breaks, THEN conjunct2]
  have second: "llava_generate ?env' () (ascii ''q'') = Inl (HTTPException 500 (Unexpected TypeError))"
    by simp
  show ?thesis
    by (intro conjI pieces first pieces' second)
qed

section \<open>Whitespace at the fragment boundaries\<close>



end
